theory Spec2Isabelle
  imports Complex_Main
begin

section \<open>Data model (src/types.ts)\<close>

text \<open>
  A JavaScript number is a finite double, given by its value, an infinity or NaN; the
  sign of a zero is not tracked. The layer categories are the three string literals of
  \<^verbatim>\<open>LayerType\<close>.
\<close>

datatype number = Num real | PosInf | NegInf | NaN

datatype LayerType = Image | Shape | Text

record BoundingBox =
  bb_x :: number
  bb_y :: number
  bb_width :: number
  bb_height :: number

text \<open>
  \<^verbatim>\<open>extractedImage\<close> is read by the assembler as an optional base64 string;
  \<open>None\<close> is the absent (undefined) field.
\<close>

record Layer =
  layer_name :: string
  layer_description :: string
  layer_type :: LayerType
  layer_boundingBox :: BoundingBox
  layer_extractedImage :: "string option"

text \<open>
  Everything the code throws or a promise rejects with: \<open>Error msg\<close> is
  \<^verbatim>\<open>new Error(msg)\<close>; \<open>TypeError\<close> is a property read on
  \<^verbatim>\<open>null\<close> or \<^verbatim>\<open>undefined\<close>; \<open>SyntaxError\<close> comes from
  \<^verbatim>\<open>JSON.parse\<close>; \<open>DecodeError\<close> is a rejection of
  \<^verbatim>\<open>fetch\<close> or \<^verbatim>\<open>createImageBitmap\<close>; \<open>RemoteError\<close> is a
  rejection of \<^verbatim>\<open>generateContent\<close>.
\<close>

datatype error =
    Error string
  | TypeError
  | SyntaxError
  | DecodeError
  | RemoteError

section \<open>Arithmetic on doubles\<close>

text \<open>
  The result of an arithmetic operation on doubles is the exact result rounded to the
  nearest double, a tie going to the even significand (IEEE 754 binary64): 53
  significant bits, subnormal numbers in steps of \<open>2 powi - 1074\<close>, and an infinity
  once the rounded magnitude exceeds the largest double. \<open>exponent x\<close> is the
  integer \<open>e\<close> with \<open>2 powi e \<le> \<bar>x\<bar> < 2 powi (e + 1)\<close>.
\<close>

function ilog2 :: "int \<Rightarrow> int" where
  "ilog2 n = (if n < 2 then 0 else 1 + ilog2 (n div 2))"
  by auto
termination
  by (relation "measure nat") auto

declare ilog2.simps [simp del]

definition exponent :: "real \<Rightarrow> int" where
  "exponent x =
     (if 1 \<le> \<bar>x\<bar> then ilog2 \<lfloor>\<bar>x\<bar>\<rfloor>
      else - ilog2 (\<lceil>1 / \<bar>x\<bar>\<rceil> - 1) - 1)"

definition roundHalfEven :: "real \<Rightarrow> int" where
  "roundHalfEven m =
     (let f = \<lfloor>m\<rfloor>; d = m - of_int f
      in if d < 1 / 2 then f else if 1 / 2 < d then f + 1 else if even f then f else f + 1)"

definition roundToDouble :: "real \<Rightarrow> real" where
  "roundToDouble x =
     (if x = 0 then 0
      else let q = max (exponent x - 52) (- 1074)
           in of_int (roundHalfEven (x / 2 powi q)) * 2 powi q)"

definition maxDouble :: real where
  "maxDouble = (2 ^ 53 - 1) * 2 ^ 971"

definition toDouble :: "real \<Rightarrow> number" where
  "toDouble x =
     (let r = roundToDouble x
      in if maxDouble < r then PosInf else if r < - maxDouble then NegInf else Num r)"

text \<open>
  The product \<^verbatim>\<open>x * width\<close> and the sum \<^verbatim>\<open>left + width\<close> of a number
  and a pixel count (an integer, exact as a double), and \<^verbatim>\<open>Math.round\<close>: the
  nearest integer, a tie going up; infinities and NaN are returned as they are.
\<close>

fun jsTimes :: "number \<Rightarrow> nat \<Rightarrow> number" where
  "jsTimes (Num a) n = toDouble (a * real n)"
| "jsTimes PosInf n = (if n = 0 then NaN else PosInf)"
| "jsTimes NegInf n = (if n = 0 then NaN else NegInf)"
| "jsTimes NaN n = NaN"

fun jsPlus :: "number \<Rightarrow> nat \<Rightarrow> number" where
  "jsPlus (Num a) n = toDouble (a + real n)"
| "jsPlus PosInf n = PosInf"
| "jsPlus NegInf n = NegInf"
| "jsPlus NaN n = NaN"

fun Math_round :: "number \<Rightarrow> number" where
  "Math_round (Num a) = Num (real_of_int \<lfloor>a + 1 / 2\<rfloor>)"
| "Math_round PosInf = PosInf"
| "Math_round NegInf = NegInf"
| "Math_round NaN = NaN"

section \<open>The document assembler (src/services/psdService.ts)\<close>

subsection \<open>Pixels, images and the scratch canvas\<close>

type_synonym rgba = "nat \<times> nat \<times> nat \<times> nat"

definition transparent :: rgba where
  "transparent = (0, 0, 0, 0)"

record ImageData =
  img_data :: "rgba list"
  img_width :: nat
  img_height :: nat

text \<open>
  The browser: \<open>fetchBitmap\<close> is \<^verbatim>\<open>fetch\<close>, \<^verbatim>\<open>blob\<close>
  and \<^verbatim>\<open>createImageBitmap\<close> followed by reading the pixels back
  (\<open>None\<close> when one of the promises rejects); \<open>getContext2d\<close> tells whether an
  \<^verbatim>\<open>OffscreenCanvas\<close> hands out a 2d context.
\<close>

record browser =
  fetchBitmap :: "string \<Rightarrow> ImageData option"
  getContext2d :: bool

definition typeToRgba :: "LayerType \<Rightarrow> rgba" where
  "typeToRgba t = (case t of
      Image \<Rightarrow> (74, 222, 128, 100)
    | Shape \<Rightarrow> (250, 204, 21, 100)
    | Text \<Rightarrow> (248, 113, 113, 100))"

definition loadImageData :: "browser \<Rightarrow> string \<Rightarrow> error + ImageData" where
  "loadImageData env url =
     (case fetchBitmap env url of
        None \<Rightarrow> Inl DecodeError
      | Some imageBitmap \<Rightarrow>
          if \<not> getContext2d env then Inl (Error ''Could not create canvas context'')
          else Inr imageBitmap)"

definition loadImageDataFromBase64 :: "browser \<Rightarrow> string \<Rightarrow> error + ImageData" where
  "loadImageDataFromBase64 env base64 =
     loadImageData env (''data:image/png;base64,'' @ base64)"

text \<open>
  The scratch canvas with its 2d context: a row-major pixel grid and the current fill
  style. The grid holds the colours with premultiplied alpha, as canvases store them,
  and \<^verbatim>\<open>getImageData\<close> converts back; the round trip can change a colour channel
  by one. A fresh canvas is transparent black with an opaque black fill style.
\<close>

record canvas =
  cv_width :: nat
  cv_height :: nat
  cv_pixels :: "rgba list"
  cv_fillStyle :: rgba

definition OffscreenCanvas :: "nat \<Rightarrow> nat \<Rightarrow> canvas" where
  "OffscreenCanvas w h =
     \<lparr>cv_width = w, cv_height = h, cv_pixels = replicate (w * h) transparent,
      cv_fillStyle = (0, 0, 0, 255)\<rparr>"

text \<open>
  The pixels a canvas rectangle \<open>(x, y, w, h)\<close> covers; a negative width or height
  extends to the left or upwards, as the canvas API has it.
\<close>

definition covers :: "int \<Rightarrow> int \<Rightarrow> int \<Rightarrow> int \<Rightarrow> nat \<Rightarrow> nat \<Rightarrow> bool" where
  "covers x y w h px py =
     (min x (x + w) \<le> int px \<and> int px < max x (x + w) \<and>
      min y (y + h) \<le> int py \<and> int py < max y (y + h))"

definition pixelAt :: "canvas \<Rightarrow> nat \<Rightarrow> nat \<Rightarrow> rgba" where
  "pixelAt cv px py =
     (if px < cv_width cv \<and> py < cv_height cv \<and> py * cv_width cv + px < length (cv_pixels cv)
      then cv_pixels cv ! (py * cv_width cv + px) else transparent)"

definition paint :: "(rgba \<Rightarrow> rgba) \<Rightarrow> canvas \<Rightarrow> int \<Rightarrow> int \<Rightarrow> int \<Rightarrow> int \<Rightarrow> canvas" where
  "paint f cv x y w h =
     cv\<lparr>cv_pixels :=
          map (\<lambda>i. let px = i mod cv_width cv; py = i div cv_width cv
                   in if covers x y w h px py then f (pixelAt cv px py) else pixelAt cv px py)
              [0 ..< cv_width cv * cv_height cv]\<rparr>"

text \<open>
  Storing a colour with premultiplied alpha rounds each channel times alpha over 255 to
  the nearest integer; reading it back rounds the stored channel times 255 over alpha,
  a half going up.
\<close>

definition premultiply :: "rgba \<Rightarrow> rgba" where
  "premultiply c =
     (case c of (r, g, b, a) \<Rightarrow>
        ((r * a + 127) div 255, (g * a + 127) div 255, (b * a + 127) div 255, a))"

definition unpremultiply :: "rgba \<Rightarrow> rgba" where
  "unpremultiply c =
     (case c of (r, g, b, a) \<Rightarrow>
        if a = 0 then (0, 0, 0, 0)
        else (min 255 ((r * 510 + a) div (2 * a)), min 255 ((g * 510 + a) div (2 * a)),
              min 255 ((b * 510 + a) div (2 * a)), a))"

text \<open>
  Source-over compositing of premultiplied colours: the source plus the destination
  scaled by the source's transparency. The loop below only ever fills a canvas it has
  just cleared, where the result is the source.
\<close>

definition sourceOver :: "rgba \<Rightarrow> rgba \<Rightarrow> rgba" where
  "sourceOver src dst =
     (case (src, dst) of ((sr, sg, sb, sa), (dr, dg, db, da)) \<Rightarrow>
        let ch = (\<lambda>s d. s + (d * (255 - sa) + 127) div 255)
        in (ch sr dr, ch sg dg, ch sb db, ch sa da))"

definition clearRect :: "canvas \<Rightarrow> int \<Rightarrow> int \<Rightarrow> int \<Rightarrow> int \<Rightarrow> canvas" where
  "clearRect cv x y w h = paint (\<lambda>_. transparent) cv x y w h"

text \<open>
  \<^verbatim>\<open>fillRect\<close> does nothing when one of its arguments is infinite or NaN. The
  assembler passes it rounded values only, so a finite argument is an integer.
\<close>

fun rectArg :: "number \<Rightarrow> int option" where
  "rectArg (Num a) = Some \<lfloor>a\<rfloor>"
| "rectArg PosInf = None"
| "rectArg NegInf = None"
| "rectArg NaN = None"

definition canvasArgs ::
  "number \<Rightarrow> number \<Rightarrow> number \<Rightarrow> number \<Rightarrow> (int \<times> int \<times> int \<times> int) option" where
  "canvasArgs x y w h =
     (case rectArg x of None \<Rightarrow> None | Some xi \<Rightarrow>
     (case rectArg y of None \<Rightarrow> None | Some yi \<Rightarrow>
     (case rectArg w of None \<Rightarrow> None | Some wi \<Rightarrow>
     (case rectArg h of None \<Rightarrow> None | Some hi \<Rightarrow> Some (xi, yi, wi, hi)))))"

definition fillRect :: "canvas \<Rightarrow> number \<Rightarrow> number \<Rightarrow> number \<Rightarrow> number \<Rightarrow> canvas" where
  "fillRect cv x y w h =
     (case canvasArgs x y w h of
        None \<Rightarrow> cv
      | Some (xi, yi, wi, hi) \<Rightarrow>
          paint (sourceOver (premultiply (cv_fillStyle cv))) cv xi yi wi hi)"

definition getImageData :: "canvas \<Rightarrow> nat \<Rightarrow> nat \<Rightarrow> nat \<Rightarrow> nat \<Rightarrow> rgba list" where
  "getImageData cv sx sy sw sh =
     map (\<lambda>i. unpremultiply (pixelAt cv (sx + i mod sw) (sy + i div sw))) [0 ..< sw * sh]"

subsection \<open>Names\<close>

definition toUpperCase_char :: "char \<Rightarrow> char" where
  "toUpperCase_char c =
     (let n = (of_char c :: nat) in if 97 \<le> n \<and> n \<le> 122 then char_of (n - 32) else c)"

definition toUpperCase :: "string \<Rightarrow> string" where
  "toUpperCase s = map toUpperCase_char s"

definition typeName :: "LayerType \<Rightarrow> string" where
  "typeName t = (case t of Image \<Rightarrow> ''image'' | Shape \<Rightarrow> ''shape'' | Text \<Rightarrow> ''text'')"

subsection \<open>exportToPsd\<close>

text \<open>
  The layer objects handed to the writer. \<open>psd_opacity = None\<close> is a layer object
  without an \<^verbatim>\<open>opacity\<close> field, which the writer stores at full opacity.
\<close>

record PsdLayer =
  psd_name :: string
  psd_imageData :: "rgba list"
  psd_left :: number
  psd_top :: number
  psd_right :: number
  psd_bottom :: number
  psd_opacity :: "real option"

record Psd =
  doc_width :: nat
  doc_height :: nat
  doc_children :: "PsdLayer list"

definition effectiveOpacity :: "PsdLayer \<Rightarrow> real" where
  "effectiveOpacity l = (case psd_opacity l of None \<Rightarrow> 1 | Some v \<Rightarrow> v)"

definition originalLayer :: "ImageData \<Rightarrow> PsdLayer" where
  "originalLayer base =
     \<lparr>psd_name = ''Original Image'', psd_imageData = img_data base,
      psd_left = Num 0, psd_top = Num 0,
      psd_right = Num (real (img_width base)), psd_bottom = Num (real (img_height base)),
      psd_opacity = None\<rparr>"

text \<open>
  The test of line 57, \<^verbatim>\<open>layer.type === 'image' && layer.extractedImage\<close>:
  the payload when the branch is taken. The empty string is falsy.
\<close>

definition cachedExtraction :: "Layer \<Rightarrow> string option" where
  "cachedExtraction layer =
     (case layer_extractedImage layer of
        None \<Rightarrow> None
      | Some b64 \<Rightarrow> if layer_type layer = Image \<and> b64 \<noteq> [] then Some b64 else None)"

definition extractedLayer :: "Layer \<Rightarrow> ImageData \<Rightarrow> nat \<Rightarrow> nat \<Rightarrow> PsdLayer" where
  "extractedLayer layer extracted width height =
     (let left = Math_round (jsTimes (bb_x (layer_boundingBox layer)) width);
          top = Math_round (jsTimes (bb_y (layer_boundingBox layer)) height)
      in \<lparr>psd_name = ''[Extracted] '' @ layer_name layer,
          psd_imageData = img_data extracted,
          psd_left = left, psd_top = top,
          psd_right = jsPlus left (img_width extracted),
          psd_bottom = jsPlus top (img_height extracted),
          psd_opacity = None\<rparr>)"

record rect =
  rect_x :: number
  rect_y :: number
  rect_w :: number
  rect_h :: number

definition guideRect :: "BoundingBox \<Rightarrow> nat \<Rightarrow> nat \<Rightarrow> rect" where
  "guideRect bb width height =
     \<lparr>rect_x = Math_round (jsTimes (bb_x bb) width),
      rect_y = Math_round (jsTimes (bb_y bb) height),
      rect_w = Math_round (jsTimes (bb_width bb) width),
      rect_h = Math_round (jsTimes (bb_height bb) height)\<rparr>"

text \<open>
  Lines 75 to 87. The fill style is written as a CSS colour whose alpha is \<open>a / 255\<close>;
  as an 8-bit colour its alpha is \<open>a\<close> again.
\<close>

definition drawGuide :: "canvas \<Rightarrow> Layer \<Rightarrow> nat \<Rightarrow> nat \<Rightarrow> canvas" where
  "drawGuide ctx layer width height =
     (let ctx1 = clearRect ctx 0 0 (int width) (int height);
          ctx2 = ctx1\<lparr>cv_fillStyle := typeToRgba (layer_type layer)\<rparr>;
          r = guideRect (layer_boundingBox layer) width height
      in fillRect ctx2 (rect_x r) (rect_y r) (rect_w r) (rect_h r))"

definition guideLayer :: "Layer \<Rightarrow> rgba list \<Rightarrow> nat \<Rightarrow> nat \<Rightarrow> PsdLayer" where
  "guideLayer layer layerImageData width height =
     \<lparr>psd_name = ''['' @ toUpperCase (typeName (layer_type layer)) @ ''] '' @ layer_name layer,
      psd_imageData = layerImageData,
      psd_left = Num 0, psd_top = Num 0,
      psd_right = Num (real width), psd_bottom = Num (real height),
      psd_opacity = Some (7 / 10)\<rparr>"

text \<open>One turn of the loop of lines 55 to 99: the layer pushed and the canvas left behind.\<close>

definition renderLayer ::
  "browser \<Rightarrow> nat \<Rightarrow> nat \<Rightarrow> canvas \<Rightarrow> Layer \<Rightarrow> error + (PsdLayer \<times> canvas)" where
  "renderLayer env width height ctx layer =
     (case cachedExtraction layer of
        Some b64 \<Rightarrow>
          (case loadImageDataFromBase64 env b64 of
             Inl e \<Rightarrow> Inl e
           | Inr extracted \<Rightarrow> Inr (extractedLayer layer extracted width height, ctx))
      | None \<Rightarrow>
          (let ctx' = drawGuide ctx layer width height;
               layerImageData = getImageData ctx' 0 0 width height
           in Inr (guideLayer layer layerImageData width height, ctx')))"

fun renderLayers ::
  "browser \<Rightarrow> nat \<Rightarrow> nat \<Rightarrow> canvas \<Rightarrow> PsdLayer list \<Rightarrow> Layer list \<Rightarrow> error + PsdLayer list" where
  "renderLayers env width height ctx psdLayers [] = Inr psdLayers"
| "renderLayers env width height ctx psdLayers (layer # layers) =
     (case renderLayer env width height ctx layer of
        Inl e \<Rightarrow> Inl e
      | Inr (out, ctx') \<Rightarrow> renderLayers env width height ctx' (psdLayers @ [out]) layers)"

text \<open>The document object \<^verbatim>\<open>exportToPsd\<close> passes to \<^verbatim>\<open>writePsd\<close>.\<close>

definition buildPsd :: "browser \<Rightarrow> string \<Rightarrow> Layer list \<Rightarrow> error + Psd" where
  "buildPsd env imageUrl layers =
     (case loadImageData env imageUrl of
        Inl e \<Rightarrow> Inl e
      | Inr base \<Rightarrow>
          (let width = img_width base; height = img_height base;
               layerCanvas = OffscreenCanvas width height
           in if \<not> getContext2d env then Inl (Error ''Could not create layer canvas context'')
              else (case renderLayers env width height layerCanvas [originalLayer base] layers of
                      Inl e \<Rightarrow> Inl e
                    | Inr psdLayers \<Rightarrow>
                        Inr \<lparr>doc_width = width, doc_height = height,
                             doc_children = rev psdLayers\<rparr>)))"

text \<open>The serializer \<open>writePsd\<close> belongs to the library and is a parameter.\<close>

definition exportToPsd ::
  "browser \<Rightarrow> (Psd \<Rightarrow> nat list) \<Rightarrow> string \<Rightarrow> Layer list \<Rightarrow> error + nat list" where
  "exportToPsd env writePsd imageUrl layers =
     (case buildPsd env imageUrl layers of
        Inl e \<Rightarrow> Inl e
      | Inr psd \<Rightarrow> Inr (writePsd psd))"

section \<open>The model clients (src/services/geminiService.ts)\<close>

subsection \<open>Requests, responses and the runtime\<close>

datatype prompt =
    AnalyzePrompt
  | ExtractPrompt BoundingBox string

record request =
  req_model :: string
  req_mimeType :: string
  req_data :: string
  req_prompt :: prompt
  req_responseSchema :: bool

record Blob =
  blob_data :: "string option"
  blob_mimeType :: "string option"

record Part =
  part_inlineData :: "Blob option"
  part_text :: "string option"

record Content =
  content_parts :: "Part list option"

record Candidate =
  cand_content :: "Content option"

record GenerateContentResponse =
  resp_text :: "string option"
  resp_candidates :: "Candidate list option"

text \<open>Parsed JSON values; an object is the list of its own properties.\<close>

datatype json =
    JNull
  | JBool bool
  | JNum real
  | JStr string
  | JArr "json list"
  | JObj "(string \<times> json) list"

text \<open>
  The runtime the clients run in: the remote model behind
  \<^verbatim>\<open>ai.models.generateContent\<close> (\<open>Inl\<close> when the promise rejects) and
  \<^verbatim>\<open>JSON.parse\<close> (\<open>None\<close> when it throws a SyntaxError).
\<close>

record runtime =
  generateContent :: "request \<Rightarrow> error + GenerateContentResponse"
  JSON_parse :: "string \<Rightarrow> json option"

text \<open>What the clients leave behind: the requests sent and the lines of \<^verbatim>\<open>console.error\<close>.\<close>

record world =
  sent :: "request list"
  console :: "(string \<times> error) list"

subsection \<open>analyzeImageForLayers\<close>

text \<open>Truthiness of a property value; \<open>None\<close> is \<^verbatim>\<open>undefined\<close>.\<close>

fun truthy :: "json option \<Rightarrow> bool" where
  "truthy None = False"
| "truthy (Some JNull) = False"
| "truthy (Some (JBool b)) = b"
| "truthy (Some (JNum n)) = (n \<noteq> 0)"
| "truthy (Some (JStr s)) = (s \<noteq> [])"
| "truthy (Some (JArr xs)) = True"
| "truthy (Some (JObj kvs)) = True"

text \<open>
  Reading a property \<^verbatim>\<open>item.key\<close>: a TypeError on \<^verbatim>\<open>null\<close>, the value
  or \<^verbatim>\<open>undefined\<close> on an object, \<^verbatim>\<open>undefined\<close> on the other values (none of
  the four keys read below is a property of a boolean, number, string or array).
\<close>

fun getProp :: "json \<Rightarrow> string \<Rightarrow> error + json option" where
  "getProp JNull key = Inl TypeError"
| "getProp (JObj kvs) key = Inr (map_of kvs key)"
| "getProp (JBool b) key = Inr None"
| "getProp (JNum n) key = Inr None"
| "getProp (JStr s) key = Inr None"
| "getProp (JArr xs) key = Inr None"

text \<open>
  The callback of line 91,
  \<^verbatim>\<open>item => !item.name || !item.description || !item.type || !item.boundingBox\<close>.
\<close>

definition invalidItem :: "json \<Rightarrow> error + bool" where
  "invalidItem item =
     (case getProp item ''name'' of Inl e \<Rightarrow> Inl e | Inr n \<Rightarrow>
        if \<not> truthy n then Inr True else
     (case getProp item ''description'' of Inl e \<Rightarrow> Inl e | Inr d \<Rightarrow>
        if \<not> truthy d then Inr True else
     (case getProp item ''type'' of Inl e \<Rightarrow> Inl e | Inr t \<Rightarrow>
        if \<not> truthy t then Inr True else
     (case getProp item ''boundingBox'' of Inl e \<Rightarrow> Inl e | Inr b \<Rightarrow>
        Inr (\<not> truthy b)))))"

text \<open>\<^verbatim>\<open>Array.prototype.some\<close> with that callback: left to right, stopping at the first hit.\<close>

fun someInvalid :: "json list \<Rightarrow> error + bool" where
  "someInvalid [] = Inr False"
| "someInvalid (item # items) =
     (case invalidItem item of
        Inl e \<Rightarrow> Inl e
      | Inr True \<Rightarrow> Inr True
      | Inr False \<Rightarrow> someInvalid items)"

definition analyzeRequest :: "string \<Rightarrow> string \<Rightarrow> request" where
  "analyzeRequest base64Image mimeType =
     \<lparr>req_model = ''gemini-flash-latest'', req_mimeType = mimeType, req_data = base64Image,
      req_prompt = AnalyzePrompt, req_responseSchema = True\<rparr>"

text \<open>The body of the \<^verbatim>\<open>try\<close> block, lines 64 to 95, once the response is in.\<close>

definition analyzeTry :: "runtime \<Rightarrow> error + GenerateContentResponse \<Rightarrow> error + json list" where
  "analyzeTry rt answer =
     (case answer of
        Inl e \<Rightarrow> Inl e
      | Inr response \<Rightarrow>
          (case resp_text response of
             None \<Rightarrow> Inl (Error ''API returned an empty response.'')
           | Some jsonText \<Rightarrow>
               if jsonText = [] then Inl (Error ''API returned an empty response.'')
               else (case JSON_parse rt jsonText of
                       None \<Rightarrow> Inl SyntaxError
                     | Some (JArr items) \<Rightarrow>
                         (case someInvalid items of
                            Inl e \<Rightarrow> Inl e
                          | Inr True \<Rightarrow> Inl (Error ''Invalid JSON structure received from API.'')
                          | Inr False \<Rightarrow> Inr items)
                     | Some _ \<Rightarrow> Inl (Error ''Invalid JSON structure received from API.''))))"

definition analyzeImageForLayers ::
  "runtime \<Rightarrow> string \<Rightarrow> string \<Rightarrow> world \<Rightarrow> (error + json list) \<times> world" where
  "analyzeImageForLayers rt base64Image mimeType w =
     (let req = analyzeRequest base64Image mimeType;
          w1 = w\<lparr>sent := sent w @ [req]\<rparr>
      in case analyzeTry rt (generateContent rt req) of
           Inr layers \<Rightarrow> (Inr layers, w1)
         | Inl e \<Rightarrow>
             (Inl (Error ''Failed to communicate with the AI model.''),
              w1\<lparr>console := console w1 @ [(''Error calling Gemini API:'', e)]\<rparr>))"

subsection \<open>extractImageLayer\<close>

definition extractRequest :: "string \<Rightarrow> string \<Rightarrow> Layer \<Rightarrow> request" where
  "extractRequest base64Image mimeType layer =
     \<lparr>req_model = ''gemini-2.5-flash-image'', req_mimeType = mimeType, req_data = base64Image,
      req_prompt = ExtractPrompt (layer_boundingBox layer) (layer_description layer),
      req_responseSchema = False\<rparr>"

text \<open>The loop of lines 124 to 128: the first part with a truthy \<^verbatim>\<open>inlineData\<close>.\<close>

fun firstInlineData :: "Part list \<Rightarrow> Blob option" where
  "firstInlineData [] = None"
| "firstInlineData (part # parts) =
     (case part_inlineData part of
        Some blob \<Rightarrow> Some blob
      | None \<Rightarrow> firstInlineData parts)"

text \<open>
  The body of the \<^verbatim>\<open>try\<close> block, lines 109 to 130. Reading
  \<^verbatim>\<open>response.candidates[0].content.parts\<close> throws a TypeError when a link of the
  chain is missing. The value returned is \<^verbatim>\<open>part.inlineData.data\<close>, which the
  response type leaves optional.
\<close>

definition extractTry :: "error + GenerateContentResponse \<Rightarrow> error + string option" where
  "extractTry answer =
     (case answer of
        Inl e \<Rightarrow> Inl e
      | Inr response \<Rightarrow>
          (case resp_candidates response of
             None \<Rightarrow> Inl TypeError
           | Some [] \<Rightarrow> Inl TypeError
           | Some (candidate # _) \<Rightarrow>
               (case cand_content candidate of
                  None \<Rightarrow> Inl TypeError
                | Some content \<Rightarrow>
                    (case content_parts content of
                       None \<Rightarrow> Inl TypeError
                     | Some parts \<Rightarrow>
                         (case firstInlineData parts of
                            Some blob \<Rightarrow> Inr (blob_data blob)
                          | None \<Rightarrow>
                              Inl (Error ''No image data found in AI response for extraction.''))))))"

text \<open>
  The layer is passed by reference; the model returns it as the call leaves it, next to
  the result and the world.
\<close>

definition extractImageLayer ::
  "runtime \<Rightarrow> string \<Rightarrow> string \<Rightarrow> Layer \<Rightarrow> world \<Rightarrow> (error + string option) \<times> Layer \<times> world" where
  "extractImageLayer rt base64Image mimeType layer w =
     (let req = extractRequest base64Image mimeType layer;
          w1 = w\<lparr>sent := sent w @ [req]\<rparr>
      in case extractTry (generateContent rt req) of
           Inr payload \<Rightarrow> (Inr payload, layer, w1)
         | Inl e \<Rightarrow>
             (Inl (Error ''Failed to extract image layer with the AI model.''), layer,
              w1\<lparr>console := console w1 @ [(''Error calling Gemini API for image extraction:'', e)]\<rparr>))"

section \<open>Auxiliary notions for the statements\<close>

text \<open>
  What one turn of the assembler's loop pushes for a layer when it starts from a freshly
  created canvas, and whether the cached extraction of a layer (if the loop decodes one)
  decodes in the given browser.
\<close>

definition layerOutput :: "browser \<Rightarrow> nat \<Rightarrow> nat \<Rightarrow> Layer \<Rightarrow> error + PsdLayer" where
  "layerOutput env width height layer =
     (case renderLayer env width height (OffscreenCanvas width height) layer of
        Inl e \<Rightarrow> Inl e
      | Inr (out, ctx') \<Rightarrow> Inr out)"

definition decodable :: "browser \<Rightarrow> Layer \<Rightarrow> bool" where
  "decodable env layer =
     (case cachedExtraction layer of
        None \<Rightarrow> True
      | Some b64 \<Rightarrow> (case loadImageDataFromBase64 env b64 of Inl e \<Rightarrow> False | Inr img \<Rightarrow> True))"

text \<open>
  Whether the pixel in column \<open>px\<close> and row \<open>py\<close> lies in a rectangle handed to
  \<^verbatim>\<open>fillRect\<close>: in no rectangle when a value is infinite or NaN.
\<close>

definition inRect :: "rect \<Rightarrow> nat \<Rightarrow> nat \<Rightarrow> bool" where
  "inRect r px py =
     (case canvasArgs (rect_x r) (rect_y r) (rect_w r) (rect_h r) of
        None \<Rightarrow> False
      | Some (x, y, w, h) \<Rightarrow> covers x y w h px py)"

text \<open>
  The four keys the decomposition checks (the \<^verbatim>\<open>required\<close> list of the
  response schema), and whether reading a key of an element gives a truthy value: it
  does not when the element is \<^verbatim>\<open>null\<close>, when the key is missing, or when the
  value is \<^verbatim>\<open>null\<close>, \<^verbatim>\<open>false\<close>, \<^verbatim>\<open>0\<close> or the empty string.
\<close>

definition requiredFields :: "string list" where
  "requiredFields = [''name'', ''description'', ''type'', ''boundingBox'']"

definition hasTruthy :: "json \<Rightarrow> string \<Rightarrow> bool" where
  "hasTruthy item key = (case getProp item key of Inl e \<Rightarrow> False | Inr v \<Rightarrow> truthy v)"

text \<open>
  The parts of the first candidate of a response; none when the response has no
  candidates, or the first candidate no content, or the content no parts.
\<close>

definition candidateParts :: "GenerateContentResponse \<Rightarrow> Part list" where
  "candidateParts response =
     (case resp_candidates response of
        None \<Rightarrow> []
      | Some [] \<Rightarrow> []
      | Some (candidate # _) \<Rightarrow>
          (case cand_content candidate of
             None \<Rightarrow> []
           | Some content \<Rightarrow>
               (case content_parts content of None \<Rightarrow> [] | Some parts \<Rightarrow> parts)))"

subsection \<open>Sample inputs\<close>

text \<open>
  Source images of 2 by 2, 200 by 200 and 5 by 3 pixels with cutouts of 1 by 1 and 40 by
  40 pixels; four layers: a shape without extraction, an image with a cached cutout, an
  image whose cached payload does not decode, and an image whose box starts at the
  doubles nearest to 0.3 and to 1/6; a stand-in for the serializer; and the documents
  the assembler builds from them.
\<close>

definition ex_base :: ImageData where
  "ex_base = \<lparr>img_data = replicate 4 (10, 20, 30, 255), img_width = 2, img_height = 2\<rparr>"

definition ex_cutout :: ImageData where
  "ex_cutout = \<lparr>img_data = [(1, 2, 3, 255)], img_width = 1, img_height = 1\<rparr>"

definition ex_browser :: browser where
  "ex_browser =
     \<lparr>fetchBitmap = (\<lambda>url. if url = ''blob:base'' then Some ex_base
                          else if url = ''data:image/png;base64,QUJD'' then Some ex_cutout
                          else None),
      getContext2d = True\<rparr>"

definition ex_sky :: Layer where
  "ex_sky = \<lparr>layer_name = ''Sky'', layer_description = ''A solid blue band.'',
             layer_type = Shape,
             layer_boundingBox =
               \<lparr>bb_x = Num 0, bb_y = Num 0, bb_width = Num 1, bb_height = Num (1 / 2)\<rparr>,
             layer_extractedImage = None\<rparr>"

definition ex_logo :: Layer where
  "ex_logo = \<lparr>layer_name = ''Logo'', layer_description = ''A round logo.'',
              layer_type = Image,
              layer_boundingBox =
                \<lparr>bb_x = Num (1 / 2), bb_y = Num (1 / 2), bb_width = Num (1 / 2),
                 bb_height = Num (1 / 2)\<rparr>,
              layer_extractedImage = Some ''QUJD''\<rparr>"

definition ex_broken :: Layer where
  "ex_broken = ex_logo\<lparr>layer_name := ''Broken'', layer_extractedImage := Some ''!!''\<rparr>"

definition ex_empty :: Layer where
  "ex_empty = ex_logo\<lparr>layer_name := ''Empty'', layer_extractedImage := Some []\<rparr>"

definition ex_void :: Layer where
  "ex_void = ex_sky\<lparr>layer_name := ''Void'',
        layer_boundingBox :=
          \<lparr>bb_x = NaN, bb_y = Num 0, bb_width = Num 1, bb_height = PosInf\<rparr>\<rparr>"

definition ex_third :: BoundingBox where
  "ex_third =
     \<lparr>bb_x = Num (5404319552844595 / 2 ^ 54), bb_y = Num (6004799503160661 / 2 ^ 55),
      bb_width = Num (1 / 2), bb_height = Num (1 / 2)\<rparr>"

definition ex_badge :: Layer where
  "ex_badge = ex_logo\<lparr>layer_name := ''Badge'', layer_boundingBox := ex_third\<rparr>"

definition ex_writePsd :: "Psd \<Rightarrow> nat list" where
  "ex_writePsd psd = [doc_width psd, doc_height psd, length (doc_children psd)]"

definition ex_psd :: Psd where
  "ex_psd =
     \<lparr>doc_width = 2, doc_height = 2,
      doc_children =
        [\<lparr>psd_name = ''[Extracted] Logo'', psd_imageData = [(1, 2, 3, 255)],
          psd_left = Num 1, psd_top = Num 1, psd_right = Num 2, psd_bottom = Num 2,
          psd_opacity = None\<rparr>,
         \<lparr>psd_name = ''[SHAPE] Sky'',
          psd_imageData = [(250, 204, 20, 100), (250, 204, 20, 100), (0, 0, 0, 0), (0, 0, 0, 0)],
          psd_left = Num 0, psd_top = Num 0, psd_right = Num 2, psd_bottom = Num 2,
          psd_opacity = Some (7 / 10)\<rparr>,
         \<lparr>psd_name = ''Original Image'',
          psd_imageData = [(10, 20, 30, 255), (10, 20, 30, 255), (10, 20, 30, 255),
                           (10, 20, 30, 255)],
          psd_left = Num 0, psd_top = Num 0, psd_right = Num 2, psd_bottom = Num 2,
          psd_opacity = None\<rparr>]\<rparr>"

definition ex_base200 :: ImageData where
  "ex_base200 = \<lparr>img_data = replicate 40000 (10, 20, 30, 255), img_width = 200, img_height = 200\<rparr>"

definition ex_cutout40 :: ImageData where
  "ex_cutout40 = \<lparr>img_data = replicate 1600 (1, 2, 3, 255), img_width = 40, img_height = 40\<rparr>"

definition ex_browser200 :: browser where
  "ex_browser200 =
     \<lparr>fetchBitmap = (\<lambda>url. if url = ''blob:base'' then Some ex_base200
                          else if url = ''data:image/png;base64,QUJD'' then Some ex_cutout40
                          else None),
      getContext2d = True\<rparr>"

definition ex_psd200 :: Psd where
  "ex_psd200 =
     \<lparr>doc_width = 200, doc_height = 200,
      doc_children =
        [\<lparr>psd_name = ''[Extracted] Logo'', psd_imageData = replicate 1600 (1, 2, 3, 255),
          psd_left = Num 100, psd_top = Num 100, psd_right = Num 140, psd_bottom = Num 140,
          psd_opacity = None\<rparr>,
         \<lparr>psd_name = ''Original Image'', psd_imageData = replicate 40000 (10, 20, 30, 255),
          psd_left = Num 0, psd_top = Num 0, psd_right = Num 200, psd_bottom = Num 200,
          psd_opacity = None\<rparr>]\<rparr>"

definition ex_base53 :: ImageData where
  "ex_base53 = \<lparr>img_data = replicate 15 (10, 20, 30, 255), img_width = 5, img_height = 3\<rparr>"

definition ex_browser53 :: browser where
  "ex_browser53 =
     \<lparr>fetchBitmap = (\<lambda>url. if url = ''blob:base'' then Some ex_base53
                          else if url = ''data:image/png;base64,QUJD'' then Some ex_cutout
                          else None),
      getContext2d = True\<rparr>"

definition ex_psd53 :: Psd where
  "ex_psd53 =
     \<lparr>doc_width = 5, doc_height = 3,
      doc_children =
        [\<lparr>psd_name = ''[Extracted] Badge'', psd_imageData = [(1, 2, 3, 255)],
          psd_left = Num 2, psd_top = Num 1, psd_right = Num 3, psd_bottom = Num 2,
          psd_opacity = None\<rparr>,
         \<lparr>psd_name = ''Original Image'', psd_imageData = replicate 15 (10, 20, 30, 255),
          psd_left = Num 0, psd_top = Num 0, psd_right = Num 5, psd_bottom = Num 3,
          psd_opacity = None\<rparr>]\<rparr>"

text \<open>
  Runtimes whose model gives one fixed answer: a response whose single element has an
  unknown category and an empty bounding box, one whose element has an empty name, one
  whose second element has no \<^verbatim>\<open>type\<close>, a model that cannot be reached, a model
  that answers with a text part and two image parts, and one that answers with text only.
\<close>

definition ex_runtime :: "error + GenerateContentResponse \<Rightarrow> string \<Rightarrow> json \<Rightarrow> runtime" where
  "ex_runtime answer jsonText parsed =
     \<lparr>generateContent = (\<lambda>req. answer),
      JSON_parse = (\<lambda>txt. if txt = jsonText then Some parsed else None)\<rparr>"

definition ex_textResponse :: "string \<Rightarrow> GenerateContentResponse" where
  "ex_textResponse txt = \<lparr>resp_text = Some txt, resp_candidates = None\<rparr>"

definition ex_world :: world where
  "ex_world = \<lparr>sent = [], console = []\<rparr>"

definition ex_item :: "string \<Rightarrow> string \<Rightarrow> json" where
  "ex_item n t =
     JObj [(''name'', JStr n), (''description'', JStr ''A blue band.''), (''type'', JStr t),
           (''boundingBox'', JObj [])]"

definition ex_item_no_type :: json where
  "ex_item_no_type =
     JObj [(''name'', JStr ''Sky''), (''description'', JStr ''A blue band.''),
           (''boundingBox'', JObj [(''x'', JNum 0), (''y'', JNum 0), (''width'', JNum 1),
                                   (''height'', JNum (1 / 2))])]"

definition ex_lenient :: runtime where
  "ex_lenient = ex_runtime (Inr (ex_textResponse ''[{name: Sky, type: hologram, boundingBox: {}}]''))
                  ''[{name: Sky, type: hologram, boundingBox: {}}]''
                  (JArr [ex_item ''Sky'' ''hologram''])"

definition ex_unnamed :: runtime where
  "ex_unnamed = ex_runtime (Inr (ex_textResponse ''[{name: , type: shape, boundingBox: {}}]''))
                  ''[{name: , type: shape, boundingBox: {}}]''
                  (JArr [ex_item [] ''shape''])"

definition ex_missing :: runtime where
  "ex_missing = ex_runtime (Inr (ex_textResponse ''[{name: Ground, ...}, {name: Sky, boundingBox: {...}}]''))
                  ''[{name: Ground, ...}, {name: Sky, boundingBox: {...}}]''
                  (JArr [ex_item ''Ground'' ''shape'', ex_item_no_type])"

definition ex_down :: runtime where
  "ex_down = ex_runtime (Inl RemoteError) [] JNull"

definition ex_textPart :: Part where
  "ex_textPart = \<lparr>part_inlineData = None, part_text = Some ''Here is the cutout.''\<rparr>"

definition ex_imagePart :: "string \<Rightarrow> Part" where
  "ex_imagePart b64 =
     \<lparr>part_inlineData = Some \<lparr>blob_data = Some b64, blob_mimeType = Some ''image/png''\<rparr>,
      part_text = None\<rparr>"

definition ex_partsResponse :: "Part list \<Rightarrow> GenerateContentResponse" where
  "ex_partsResponse parts =
     \<lparr>resp_text = None,
      resp_candidates = Some [\<lparr>cand_content = Some \<lparr>content_parts = Some parts\<rparr>\<rparr>]\<rparr>"

definition ex_cutoutModel :: runtime where
  "ex_cutoutModel =
     ex_runtime (Inr (ex_partsResponse [ex_textPart, ex_imagePart ''QUJD'', ex_imagePart ''WFla''])) [] JNull"

definition ex_textOnlyModel :: runtime where
  "ex_textOnlyModel = ex_runtime (Inr (ex_partsResponse [ex_textPart, ex_textPart])) [] JNull"

definition ex_bareImagePart :: Part where
  "ex_bareImagePart =
     \<lparr>part_inlineData = Some \<lparr>blob_data = None, blob_mimeType = Some ''image/png''\<rparr>,
      part_text = None\<rparr>"

definition ex_silent :: runtime where
  "ex_silent = ex_runtime (Inr \<lparr>resp_text = None, resp_candidates = None\<rparr>) [] JNull"

definition ex_garbled :: runtime where
  "ex_garbled = ex_runtime (Inr (ex_textResponse ''[{name: Sky''))
                  ''[{name: Sky, type: shape}]'' (JArr [])"

section \<open>Rounding to a double\<close>

lemma ilog2_bounds:
  "1 \<le> n \<Longrightarrow> 0 \<le> ilog2 n \<and> 2 ^ nat (ilog2 n) \<le> n \<and> n < 2 ^ nat (ilog2 n + 1)"
proof (induction n rule: ilog2.induct)
  case (1 n)
  show ?case
  proof (cases "n < 2")
    case True
    with "1.prems" have "n = 1" by simp
    then show ?thesis by (simp add: ilog2.simps)
  next
    case False
    then have h: "1 \<le> n div 2" by simp
    from "1.IH"[OF False h] have
      ih: "0 \<le> ilog2 (n div 2)" "2 ^ nat (ilog2 (n div 2)) \<le> n div 2"
          "n div 2 < 2 ^ nat (ilog2 (n div 2) + 1)"
      by simp_all
    have e: "ilog2 n = 1 + ilog2 (n div 2)" using False by (simp add: ilog2.simps)
    have n1: "nat (ilog2 n) = Suc (nat (ilog2 (n div 2)))" using e ih(1) by simp
    have n2: "nat (ilog2 n + 1) = Suc (nat (ilog2 (n div 2) + 1))" using e ih(1) by simp
    have "2 * 2 ^ nat (ilog2 (n div 2)) \<le> n" using ih(2) by linarith
    moreover have "n < 2 * 2 ^ nat (ilog2 (n div 2) + 1)" using ih(3) by linarith
    ultimately show ?thesis using e ih(1) n1 n2 by simp
  qed
qed

lemma exponent_bounds:
  assumes "x \<noteq> 0"
  shows "2 powi (exponent x) \<le> \<bar>x\<bar>" and "\<bar>x\<bar> < 2 powi (exponent x + 1)"
proof -
  let ?a = "\<bar>x\<bar>"
  have pos: "0 < ?a" using assms by simp
  have "2 powi (exponent x) \<le> ?a \<and> ?a < 2 powi (exponent x + 1)"
  proof (cases "1 \<le> ?a")
    case True
    let ?n = "\<lfloor>?a\<rfloor>"
    have n: "1 \<le> ?n" using True by simp
    from ilog2_bounds[OF n] have
      b: "0 \<le> ilog2 ?n" "2 ^ nat (ilog2 ?n) \<le> ?n" "?n < 2 ^ nat (ilog2 ?n + 1)"
      by simp_all
    have e: "exponent x = ilog2 ?n" using True by (simp add: exponent_def)
    have "real_of_int (2 ^ nat (ilog2 ?n)) \<le> real_of_int ?n" using b(2) by linarith
    also have "\<dots> \<le> ?a" by simp
    finally have lo: "2 powi (exponent x) \<le> ?a"
      using b(1) e by (simp add: power_int_def)
    have "?a < real_of_int ?n + 1" by linarith
    also have "\<dots> \<le> real_of_int (2 ^ nat (ilog2 ?n + 1))"
      using b(3) by linarith
    finally have hi: "?a < 2 powi (exponent x + 1)"
      using b(1) e by (simp add: power_int_def)
    from lo hi show ?thesis by simp
  next
    case False
    let ?m = "\<lceil>1 / ?a\<rceil> - 1"
    let ?k = "ilog2 ?m"
    have inv: "1 < 1 / ?a" using False pos by simp
    then have m: "1 \<le> ?m" by linarith
    from ilog2_bounds[OF m] have
      b: "0 \<le> ?k" "2 ^ nat ?k \<le> ?m" "?m < 2 ^ nat (?k + 1)"
      by simp_all
    have e: "exponent x = - ?k - 1" using False by (simp add: exponent_def)
    have "1 / ?a \<le> real_of_int ?m + 1" by linarith
    also have "\<dots> \<le> real_of_int (2 ^ nat (?k + 1))" using b(3) by linarith
    finally have "1 / ?a \<le> 2 ^ nat (?k + 1)" by simp
    then have "1 \<le> 2 ^ nat (?k + 1) * ?a" using pos by (simp add: field_simps)
    then have lo': "1 / 2 ^ nat (?k + 1) \<le> ?a" by (simp add: field_simps)
    have e': "exponent x = - (?k + 1)" using e by simp
    have p1: "(2::real) powi (exponent x) = 1 / 2 ^ nat (?k + 1)"
      unfolding e' power_int_minus using b(1) by (simp add: power_int_def field_simps)
    have "real_of_int (2 ^ nat ?k) \<le> real_of_int ?m" using b(2) by linarith
    also have "\<dots> < 1 / ?a" by linarith
    finally have "2 ^ nat ?k < 1 / ?a" by simp
    then have "2 ^ nat ?k * ?a < 1" using pos by (simp add: field_simps)
    then have hi': "?a < 1 / 2 ^ nat ?k" by (simp add: field_simps)
    have e'': "exponent x + 1 = - ?k" using e by simp
    have p2: "(2::real) powi (exponent x + 1) = 1 / 2 ^ nat ?k"
      unfolding e'' power_int_minus using b(1) by (simp add: power_int_def field_simps)
    from lo' hi' p1 p2 show ?thesis by simp
  qed
  then show "2 powi (exponent x) \<le> \<bar>x\<bar>" and "\<bar>x\<bar> < 2 powi (exponent x + 1)" by simp_all
qed

lemma roundHalfEven_error: "\<bar>real_of_int (roundHalfEven m) - m\<bar> \<le> 1 / 2"
  unfolding roundHalfEven_def Let_def by (auto simp: abs_if) linarith+

lemma roundHalfEven_of_int: "roundHalfEven (real_of_int k) = k"
  by (simp add: roundHalfEven_def)

lemma roundToDouble_error:
  "\<bar>roundToDouble x - x\<bar> \<le> \<bar>x\<bar> / 2 ^ 53 + 1 / 2 ^ 1075"
proof (cases "x = 0")
  case True
  then show ?thesis by (simp add: roundToDouble_def)
next
  case False
  define q where "q = max (exponent x - 52) (- 1074)"
  define p :: real where "p = 2 powi q"
  define r where "r = roundHalfEven (x / p)"
  have p: "0 < p" by (simp add: p_def)
  have rd: "roundToDouble x = real_of_int r * p"
    using False by (simp add: roundToDouble_def Let_def q_def p_def r_def)
  have "\<bar>real_of_int r - x / p\<bar> \<le> 1 / 2"
    unfolding r_def by (rule roundHalfEven_error)
  then have "\<bar>real_of_int r - x / p\<bar> * p \<le> 1 / 2 * p"
    using p by (intro mult_right_mono) simp_all
  moreover have "\<bar>real_of_int r - x / p\<bar> * p = \<bar>real_of_int r * p - x\<bar>"
  proof -
    have "\<bar>real_of_int r - x / p\<bar> * p = \<bar>(real_of_int r - x / p) * p\<bar>"
      using p by (simp add: abs_mult)
    also have "(real_of_int r - x / p) * p = real_of_int r * p - x"
      using p by (simp add: field_simps)
    finally show ?thesis .
  qed
  ultimately have err: "\<bar>roundToDouble x - x\<bar> \<le> p / 2" by (simp add: rd)
  have "p / 2 \<le> \<bar>x\<bar> / 2 ^ 53 + 1 / 2 ^ 1075"
  proof (cases "- 1074 \<le> exponent x - 52")
    case True
    then have "q = exponent x - 52" by (simp add: q_def)
    then have "p = 2 powi (exponent x) / 2 ^ 52"
      by (simp add: p_def power_int_diff)
    then have "p / 2 = 2 powi (exponent x) / 2 ^ 53" by simp
    also have "\<dots> \<le> \<bar>x\<bar> / 2 ^ 53"
      using exponent_bounds(1)[OF False] by (simp add: divide_right_mono)
    finally show ?thesis by simp
  next
    case False
    then have "q = - 1074" by (simp add: q_def)
    then have "p = 1 / 2 ^ 1074" by (simp add: p_def power_int_minus field_simps)
    then have "p / 2 = 1 / 2 ^ 1075" by simp
    then show ?thesis by simp
  qed
  with err show ?thesis by linarith
qed

lemma toDouble_finite:
  assumes "\<bar>x\<bar> \<le> 2 ^ 1000"
  shows "toDouble x = Num (roundToDouble x)"
proof -
  have "\<bar>roundToDouble x\<bar> \<le> \<bar>x\<bar> + \<bar>roundToDouble x - x\<bar>" by linarith
  also have "\<dots> \<le> \<bar>x\<bar> + (\<bar>x\<bar> / 2 ^ 53 + 1 / 2 ^ 1075)"
    using roundToDouble_error[of x] by linarith
  also have "\<dots> \<le> 2 ^ 1000 + (2 ^ 1000 / 2 ^ 53 + 1 / 2 ^ 1075)"
    using assms by (intro add_mono divide_right_mono) simp_all
  also have "\<dots> \<le> maxDouble" unfolding maxDouble_def by simp
  finally have "\<bar>roundToDouble x\<bar> \<le> maxDouble" .
  then show ?thesis by (auto simp: toDouble_def Let_def)
qed

lemma roundToDouble_of_int:
  assumes "\<bar>k\<bar> < 2 ^ 53"
  shows "roundToDouble (real_of_int k) = real_of_int k"
proof (cases "k = 0")
  case True
  then show ?thesis by (simp add: roundToDouble_def)
next
  case False
  let ?x = "real_of_int k"
  let ?e = "exponent ?x"
  have x: "?x \<noteq> 0" using False by simp
  have a1: "1 \<le> \<bar>?x\<bar>"
  proof -
    have "1 \<le> \<bar>k\<bar>" using False by simp
    then have "real_of_int 1 \<le> real_of_int \<bar>k\<bar>" by linarith
    then show ?thesis by simp
  qed
  have a2: "\<bar>?x\<bar> < 2 ^ 53"
  proof -
    have "real_of_int \<bar>k\<bar> < real_of_int (2 ^ 53)" using assms by linarith
    then show ?thesis by simp
  qed
  have lo: "0 \<le> ?e"
  proof (rule ccontr)
    assume "\<not> 0 \<le> ?e"
    then have "?e + 1 \<le> 0" by simp
    then have "(2::real) powi (?e + 1) \<le> 2 powi 0"
      by (intro power_int_increasing) simp_all
    with exponent_bounds(2)[OF x] a1 show False by simp
  qed
  have hi: "?e \<le> 52"
  proof (rule ccontr)
    assume "\<not> ?e \<le> 52"
    then have "53 \<le> ?e" by simp
    then have "(2::real) powi 53 \<le> 2 powi ?e"
      by (intro power_int_increasing) simp_all
    with exponent_bounds(1)[OF x] a2 show False by simp
  qed
  define j where "j = nat (52 - ?e)"
  have q: "max (?e - 52) (- 1074) = - int j" using lo hi by (simp add: j_def)
  have pw: "(2::real) powi (- int j) = 1 / 2 ^ j"
    by (simp add: power_int_minus field_simps)
  have "?x / 2 powi (- int j) = real_of_int (k * 2 ^ j)" by (simp add: pw)
  then have "roundHalfEven (?x / 2 powi (- int j)) = k * 2 ^ j"
    using roundHalfEven_of_int[of "k * 2 ^ j"] by simp
  then show ?thesis
    using x by (simp add: roundToDouble_def Let_def q pw)
qed

section \<open>The canvas and the loop of the assembler\<close>

lemma index_in_grid:
  fixes w h px py :: nat
  assumes "px < w" "py < h"
  shows "py * w + px < w * h"
proof -
  have "py * w + px < py * w + w" using assms by simp
  also have "\<dots> = (Suc py) * w" by simp
  also have "\<dots> \<le> h * w" using assms by (intro mult_le_mono1) simp
  finally show ?thesis by (simp add: mult.commute)
qed

lemma pixelAt_paint:
  assumes a: "px < cv_width cv" "py < cv_height cv"
  shows "pixelAt (paint f cv x y w h) px py =
     (if covers x y w h px py then f (pixelAt cv px py) else pixelAt cv px py)"
proof -
  let ?cv' = "paint f cv x y w h"
  let ?i = "py * cv_width cv + px"
  have i: "?i < cv_width cv * cv_height cv" using a by (rule index_in_grid)
  have m: "?i mod cv_width cv = px" "?i div cv_width cv = py" using a by simp_all
  have len: "length (cv_pixels ?cv') = cv_width cv * cv_height cv"
    by (simp add: paint_def)
  have dims: "cv_width ?cv' = cv_width cv" "cv_height ?cv' = cv_height cv"
    by (simp_all add: paint_def)
  have "pixelAt ?cv' px py = cv_pixels ?cv' ! ?i"
    unfolding pixelAt_def[of ?cv'] using a i len dims by simp
  also have "\<dots> = (if covers x y w h px py then f (pixelAt cv px py) else pixelAt cv px py)"
    using i m by (simp add: paint_def Let_def)
  finally show ?thesis .
qed

lemma paint_dims:
  "cv_width (paint f cv x y w h) = cv_width cv"
  "cv_height (paint f cv x y w h) = cv_height cv"
  "cv_fillStyle (paint f cv x y w h) = cv_fillStyle cv"
  by (simp_all add: paint_def)

lemma covers_full: "px < w \<Longrightarrow> py < h \<Longrightarrow> covers 0 0 (int w) (int h) px py"
  by (simp add: covers_def)

lemma sourceOver_transparent: "sourceOver c transparent = c"
  by (cases c) (simp add: sourceOver_def transparent_def)

lemma unpremultiply_transparent: "unpremultiply transparent = transparent"
  by (simp add: unpremultiply_def transparent_def)

lemma pixelAt_fillStyle: "pixelAt (cv\<lparr>cv_fillStyle := c\<rparr>) px py = pixelAt cv px py"
  by (simp add: pixelAt_def)

lemma fillRect_dims:
  "cv_width (fillRect cv x y w h) = cv_width cv"
  "cv_height (fillRect cv x y w h) = cv_height cv"
  by (simp_all add: fillRect_def paint_dims split: option.splits)

lemma drawGuide_dims:
  "cv_width (drawGuide ctx layer w h) = cv_width ctx"
  "cv_height (drawGuide ctx layer w h) = cv_height ctx"
  by (simp_all add: drawGuide_def Let_def fillRect_dims clearRect_def paint_dims)

lemma pixelAt_fillRect:
  assumes "px < cv_width cv" "py < cv_height cv"
  shows "pixelAt (fillRect cv x y w h) px py =
     (if inRect \<lparr>rect_x = x, rect_y = y, rect_w = w, rect_h = h\<rparr> px py
      then sourceOver (premultiply (cv_fillStyle cv)) (pixelAt cv px py)
      else pixelAt cv px py)"
  using assms
  by (auto simp: fillRect_def inRect_def pixelAt_paint split: option.splits)

lemma pixelAt_drawGuide:
  assumes "cv_width ctx = w" "cv_height ctx = h" "px < w" "py < h"
  shows "pixelAt (drawGuide ctx layer w h) px py =
     (if inRect (guideRect (layer_boundingBox layer) w h) px py
      then premultiply (typeToRgba (layer_type layer)) else transparent)"
proof -
  let ?c1 = "clearRect ctx 0 0 (int w) (int h)"
  let ?c2 = "?c1\<lparr>cv_fillStyle := typeToRgba (layer_type layer)\<rparr>"
  let ?r = "guideRect (layer_boundingBox layer) w h"
  have c1: "pixelAt ?c1 px py = transparent"
    using assms by (simp add: clearRect_def pixelAt_paint covers_full)
  have c2: "pixelAt ?c2 px py = transparent"
    using c1 by (simp add: pixelAt_fillStyle)
  have d: "px < cv_width ?c2" "py < cv_height ?c2"
    using assms by (simp_all add: clearRect_def paint_dims)
  have "drawGuide ctx layer w h = fillRect ?c2 (rect_x ?r) (rect_y ?r) (rect_w ?r) (rect_h ?r)"
    by (simp add: drawGuide_def Let_def)
  then show ?thesis
    using pixelAt_fillRect[OF d, of "rect_x ?r" "rect_y ?r" "rect_w ?r" "rect_h ?r"] c2
    by (simp add: sourceOver_transparent inRect_def)
qed

lemma grid_index_bounds:
  fixes i w h :: nat
  assumes "i < w * h"
  shows "i mod w < w" "i div w < h"
proof -
  have "0 < w" using assms by (cases w) simp_all
  then show "i mod w < w" by simp
  show "i div w < h" using assms by (simp add: less_mult_imp_div_less mult.commute)
qed

lemma getImageData_drawGuide:
  assumes "cv_width ctx = w" "cv_height ctx = h"
  shows "getImageData (drawGuide ctx layer w h) 0 0 w h =
     map (\<lambda>i. if inRect (guideRect (layer_boundingBox layer) w h) (i mod w) (i div w)
              then unpremultiply (premultiply (typeToRgba (layer_type layer)))
              else transparent) [0 ..< w * h]"
  unfolding getImageData_def
  by (rule map_cong[OF refl])
     (simp add: pixelAt_drawGuide[OF assms] grid_index_bounds unpremultiply_transparent)

lemma renderLayer_dims:
  assumes "renderLayer env w h ctx layer = Inr (out, ctx')"
  shows "cv_width ctx' = cv_width ctx" "cv_height ctx' = cv_height ctx"
  using assms
  by (auto simp: renderLayer_def Let_def drawGuide_dims split: option.splits sum.splits)

lemma renderLayer_guide:
  assumes "cachedExtraction layer = None" "cv_width ctx = w" "cv_height ctx = h"
  shows "renderLayer env w h ctx layer =
     Inr (guideLayer layer
            (map (\<lambda>i. if inRect (guideRect (layer_boundingBox layer) w h) (i mod w) (i div w)
                     then unpremultiply (premultiply (typeToRgba (layer_type layer)))
                     else transparent) [0 ..< w * h]) w h,
          drawGuide ctx layer w h)"
  using assms by (simp add: renderLayer_def Let_def getImageData_drawGuide)

lemma renderLayer_extracted:
  assumes "cachedExtraction layer = Some b64"
  shows "renderLayer env w h ctx layer =
     (case loadImageDataFromBase64 env b64 of
        Inl e \<Rightarrow> Inl e
      | Inr extracted \<Rightarrow> Inr (extractedLayer layer extracted w h, ctx))"
  using assms by (simp add: renderLayer_def)

lemma renderLayer_layerOutput:
  assumes "cv_width ctx = w" "cv_height ctx = h"
  shows "(case renderLayer env w h ctx layer of Inl e \<Rightarrow> Inl e | Inr (out, ctx') \<Rightarrow> Inr out)
         = layerOutput env w h layer"
proof (cases "cachedExtraction layer")
  case None
  then show ?thesis
    using assms by (simp add: layerOutput_def renderLayer_guide OffscreenCanvas_def)
next
  case (Some b64)
  then show ?thesis
    by (simp add: layerOutput_def renderLayer_extracted split: sum.splits)
qed

lemma renderLayers_Inr:
  assumes "renderLayers env w h ctx acc layers = Inr res" "cv_width ctx = w" "cv_height ctx = h"
  shows "\<exists>outs. res = acc @ outs \<and> map (layerOutput env w h) layers = map Inr outs"
  using assms
proof (induction layers arbitrary: ctx acc)
  case Nil
  then show ?case by simp
next
  case (Cons layer layers)
  from Cons.prems(1) obtain out ctx' where
    r: "renderLayer env w h ctx layer = Inr (out, ctx')"
    and rest: "renderLayers env w h ctx' (acc @ [out]) layers = Inr res"
    by (auto split: sum.splits)
  have d: "cv_width ctx' = w" "cv_height ctx' = h"
    using renderLayer_dims[OF r] Cons.prems by simp_all
  from Cons.IH[OF rest d] obtain outs where
    o: "res = (acc @ [out]) @ outs" "map (layerOutput env w h) layers = map Inr outs"
    by blast
  have "layerOutput env w h layer = Inr out"
    using renderLayer_layerOutput[OF Cons.prems(2,3), of env layer] r by simp
  with o show ?case by (intro exI[of _ "out # outs"]) simp
qed

lemma renderLayer_decodable:
  assumes "decodable env layer"
  shows "\<exists>out ctx'. renderLayer env w h ctx layer = Inr (out, ctx')"
  using assms
  by (auto simp: decodable_def renderLayer_def Let_def split: option.splits sum.splits)

lemma renderLayers_succeeds:
  assumes "\<forall>layer \<in> set layers. decodable env layer"
  shows "\<exists>res. renderLayers env w h ctx acc layers = Inr res"
  using assms
proof (induction layers arbitrary: ctx acc)
  case Nil
  then show ?case by simp
next
  case (Cons layer layers)
  then obtain out ctx' where "renderLayer env w h ctx layer = Inr (out, ctx')"
    using renderLayer_decodable[of env layer w h ctx] by auto
  with Cons show ?case by simp
qed

lemma renderLayers_fails:
  assumes "\<forall>layer \<in> set pre. decodable env layer"
      and "cachedExtraction layer = Some b64"
      and "loadImageDataFromBase64 env b64 = Inl e"
  shows "renderLayers env w h ctx acc (pre @ layer # post) = Inl e"
  using assms(1)
proof (induction pre arbitrary: ctx acc)
  case Nil
  show ?case using assms(2,3) by (simp add: renderLayer_extracted)
next
  case (Cons p pre)
  then obtain out ctx' where "renderLayer env w h ctx p = Inr (out, ctx')"
    using renderLayer_decodable[of env p w h ctx] by auto
  with Cons show ?case by simp
qed

lemma buildPsd_Inr:
  assumes "buildPsd env imageUrl layers = Inr psd"
  shows "\<exists>base outs. loadImageData env imageUrl = Inr base \<and>
           doc_width psd = img_width base \<and> doc_height psd = img_height base \<and>
           doc_children psd = rev (originalLayer base # outs) \<and>
           map (layerOutput env (img_width base) (img_height base)) layers = map Inr outs"
proof -
  from assms obtain base res where
    b: "loadImageData env imageUrl = Inr base"
    and r: "renderLayers env (img_width base) (img_height base)
              (OffscreenCanvas (img_width base) (img_height base)) [originalLayer base] layers = Inr res"
    and p: "psd = \<lparr>doc_width = img_width base, doc_height = img_height base,
                   doc_children = rev res\<rparr>"
    by (auto simp: buildPsd_def Let_def split: sum.splits if_splits)
  from renderLayers_Inr[OF r] obtain outs where
    "res = [originalLayer base] @ outs"
    "map (layerOutput env (img_width base) (img_height base)) layers = map Inr outs"
    by (auto simp: OffscreenCanvas_def)
  with b p show ?thesis by auto
qed

lemma buildPsd_child:
  assumes "buildPsd env imageUrl layers = Inr psd" "i < length layers"
  shows "layerOutput env (doc_width psd) (doc_height psd) (layers ! i) =
           Inr (doc_children psd ! (length layers - 1 - i))"
proof -
  from buildPsd_Inr[OF assms(1)] obtain base outs where
    w: "doc_width psd = img_width base" "doc_height psd = img_height base"
    and c: "doc_children psd = rev (originalLayer base # outs)"
    and m: "map (layerOutput env (img_width base) (img_height base)) layers = map Inr outs"
    by blast
  have len: "length outs = length layers" using m by (metis length_map)
  have "layerOutput env (img_width base) (img_height base) (layers ! i) = Inr (outs ! i)"
    using m assms(2) len by (metis nth_map)
  moreover have "rev (originalLayer base # outs) ! (length layers - 1 - i) = outs ! i"
  proof -
    let ?xs = "originalLayer base # outs"
    have k: "length layers - 1 - i < length ?xs" using len by simp
    have "length ?xs - Suc (length layers - 1 - i) = Suc i"
      using assms(2) len by simp
    then have "rev ?xs ! (length layers - 1 - i) = ?xs ! Suc i"
      using rev_nth[OF k] by simp
    then show ?thesis by simp
  qed
  ultimately show ?thesis using w c by simp
qed

lemma buildPsd_succeeds:
  assumes "loadImageData env imageUrl = Inr base"
      and "\<forall>layer \<in> set layers. decodable env layer"
  shows "\<exists>outs. buildPsd env imageUrl layers =
           Inr \<lparr>doc_width = img_width base, doc_height = img_height base,
                doc_children = rev (originalLayer base # outs)\<rparr> \<and>
           map (layerOutput env (img_width base) (img_height base)) layers = map Inr outs"
proof -
  have g: "getContext2d env"
    using assms(1) by (auto simp: loadImageData_def split: option.splits if_splits)
  from renderLayers_succeeds[OF assms(2)] obtain res where
    r: "renderLayers env (img_width base) (img_height base)
              (OffscreenCanvas (img_width base) (img_height base)) [originalLayer base] layers = Inr res"
    by blast
  from renderLayers_Inr[OF r] obtain outs where
    "res = [originalLayer base] @ outs"
    "map (layerOutput env (img_width base) (img_height base)) layers = map Inr outs"
    by (auto simp: OffscreenCanvas_def)
  with assms(1) g r show ?thesis
    by (auto simp: buildPsd_def Let_def)
qed

lemma cachedExtraction_None:
  "layer_type layer \<noteq> Image \<or> layer_extractedImage layer = None \<or>
   layer_extractedImage layer = Some [] \<Longrightarrow> cachedExtraction layer = None"
  by (auto simp: cachedExtraction_def split: option.splits)

lemma cachedExtraction_Some:
  "layer_type layer = Image \<Longrightarrow> layer_extractedImage layer = Some b64 \<Longrightarrow> b64 \<noteq> [] \<Longrightarrow>
   cachedExtraction layer = Some b64"
  by (simp add: cachedExtraction_def)

lemma layerOutput_guide:
  assumes "cachedExtraction layer = None"
  shows "layerOutput env w h layer =
     Inr (guideLayer layer
            (map (\<lambda>i. if inRect (guideRect (layer_boundingBox layer) w h) (i mod w) (i div w)
                     then unpremultiply (premultiply (typeToRgba (layer_type layer)))
                     else transparent) [0 ..< w * h]) w h)"
  using assms by (simp add: layerOutput_def renderLayer_guide OffscreenCanvas_def)

lemma layerOutput_extracted:
  assumes "cachedExtraction layer = Some b64"
  shows "layerOutput env w h layer =
     (case loadImageDataFromBase64 env b64 of
        Inl e \<Rightarrow> Inl e
      | Inr extracted \<Rightarrow> Inr (extractedLayer layer extracted w h))"
  using assms by (simp add: layerOutput_def renderLayer_extracted split: sum.splits)

lemma toUpperCase_typeName:
  "toUpperCase (typeName Image) = ''IMAGE''"
  "toUpperCase (typeName Shape) = ''SHAPE''"
  "toUpperCase (typeName Text) = ''TEXT''"
  by code_simp+

section \<open>Scaled coordinates and sample documents\<close>

lemma jsTimes_finite:
  assumes "\<bar>a * real n\<bar> \<le> 2 ^ 1000"
  shows "jsTimes (Num a) n = Num (roundToDouble (a * real n))"
  using toDouble_finite[OF assms] by simp

lemma Math_round_nearest:
  "Math_round (Num p) = Num (real_of_int \<lfloor>p + 1 / 2\<rfloor>) \<and>
   real_of_int \<lfloor>p + 1 / 2\<rfloor> - 1 / 2 \<le> p \<and> p < real_of_int \<lfloor>p + 1 / 2\<rfloor> + 1 / 2"
  by simp linarith

lemma jsPlus_exact:
  assumes "\<bar>k + int n\<bar> < 2 ^ 53"
  shows "jsPlus (Num (real_of_int k)) n = Num (real_of_int (k + int n))"
proof -
  have s: "real_of_int k + real n = real_of_int (k + int n)" by simp
  have "\<bar>real_of_int (k + int n)\<bar> \<le> 2 ^ 1000"
  proof -
    have "real_of_int \<bar>k + int n\<bar> \<le> real_of_int (2 ^ 53)" using assms by linarith
    also have "\<dots> \<le> 2 ^ 1000" by simp
    finally show ?thesis by simp
  qed
  then have "toDouble (real_of_int (k + int n)) = Num (roundToDouble (real_of_int (k + int n)))"
    by (rule toDouble_finite)
  also have "roundToDouble (real_of_int (k + int n)) = real_of_int (k + int n)"
    using assms by (rule roundToDouble_of_int)
  finally have "toDouble (real_of_int (k + int n)) = Num (real_of_int (k + int n))" .
  then show ?thesis
    unfolding jsPlus.simps s .
qed

lemma scaled_round_small:
  assumes "\<bar>a * real n\<bar> \<le> 2 ^ 31"
  shows "\<bar>\<lfloor>roundToDouble (a * real n) + 1 / 2\<rfloor>\<bar> \<le> 2 ^ 32"
proof -
  let ?x = "a * real n"
  have "\<bar>roundToDouble ?x - ?x\<bar> \<le> \<bar>?x\<bar> / 2 ^ 53 + 1 / 2 ^ 1075"
    by (rule roundToDouble_error)
  also have "\<dots> \<le> 2 ^ 31 / 2 ^ 53 + 1 / 2 ^ 1075"
    using assms by (intro add_mono divide_right_mono) simp_all
  also have "\<dots> \<le> 1" by simp
  finally have "\<bar>roundToDouble ?x\<bar> \<le> 2 ^ 31 + 1" using assms by linarith
  then have "- (2 ^ 31 + 1) \<le> roundToDouble ?x" "roundToDouble ?x \<le> 2 ^ 31 + 1"
    by linarith+
  then have "- (2 ^ 32) \<le> \<lfloor>roundToDouble ?x + 1 / 2\<rfloor>" "\<lfloor>roundToDouble ?x + 1 / 2\<rfloor> \<le> 2 ^ 32"
    by (simp_all add: le_floor_iff floor_le_iff)
  then show ?thesis by linarith
qed

lemma scaled_round_error:
  assumes "0 \<le> v" "v \<le> 1" "0 < d" "d < 2 ^ 32"
  shows "\<exists>k. Math_round (jsTimes (Num v) d) = Num (real_of_int k) \<and>
             \<bar>real_of_int k / real d - v\<bar> \<le> 1 / (2 * real d) + 1 / 2 ^ 52"
proof -
  let ?x = "v * real d"
  let ?r = "roundToDouble ?x"
  let ?k = "\<lfloor>?r + 1 / 2\<rfloor>"
  have d: "0 < real d" "1 \<le> real d" using assms(3) by simp_all
  have x0: "0 \<le> ?x" using assms(1) by simp
  have x1: "?x \<le> real d" using assms(2) d by (simp add: mult_left_le_one_le)
  have d32: "real d \<le> 2 ^ 32"
  proof -
    have "real d \<le> real (2 ^ 32)" using assms(4) by linarith
    then show ?thesis by simp
  qed
  have "\<bar>?x\<bar> \<le> 2 ^ 1000"
  proof -
    have "\<bar>?x\<bar> \<le> 2 ^ 32" using x0 x1 d32 by linarith
    also have "\<dots> \<le> (2::real) ^ 1000" by simp
    finally show ?thesis .
  qed
  then have "jsTimes (Num v) d = Num ?r" by (rule jsTimes_finite)
  then have m: "Math_round (jsTimes (Num v) d) = Num (real_of_int ?k)"
    by (simp del: jsTimes.simps)
  have e1: "\<bar>?r - ?x\<bar> \<le> \<bar>?x\<bar> / 2 ^ 53 + 1 / 2 ^ 1075" by (rule roundToDouble_error)
  have e2: "\<bar>real_of_int ?k - ?r\<bar> \<le> 1 / 2" by linarith
  have "\<bar>real_of_int ?k - ?x\<bar> \<le> 1 / 2 + (?x / 2 ^ 53 + 1 / 2 ^ 1075)"
    using e1 e2 x0 by linarith
  then have "\<bar>real_of_int ?k - ?x\<bar> / real d \<le> (1 / 2 + (?x / 2 ^ 53 + 1 / 2 ^ 1075)) / real d"
    using d by (intro divide_right_mono) simp_all
  moreover have "\<bar>real_of_int ?k - ?x\<bar> / real d = \<bar>real_of_int ?k / real d - v\<bar>"
  proof -
    have "real_of_int ?k / real d - v = (real_of_int ?k - ?x) / real d"
      using d by (simp add: field_simps)
    then show ?thesis using d by simp
  qed
  moreover have "(1 / 2 + (?x / 2 ^ 53 + 1 / 2 ^ 1075)) / real d
                   \<le> 1 / (2 * real d) + 1 / 2 ^ 52"
  proof -
    have "(1 / 2 + (?x / 2 ^ 53 + 1 / 2 ^ 1075)) / real d
            = 1 / (2 * real d) + v / 2 ^ 53 + (1 / 2 ^ 1075) / real d"
      using d by (simp add: field_simps)
    moreover have "v / 2 ^ 53 \<le> 1 / 2 ^ 53" using assms(2) by (simp add: divide_right_mono)
    moreover have "(1 / 2 ^ 1075) / real d \<le> 1 / 2 ^ 1075"
      using d by (simp add: field_simps)
    moreover have "(1::real) / 2 ^ 53 + 1 / 2 ^ 1075 \<le> 1 / 2 ^ 52" by simp
    ultimately show ?thesis by linarith
  qed
  ultimately have "\<bar>real_of_int ?k / real d - v\<bar> \<le> 1 / (2 * real d) + 1 / 2 ^ 52"
    by linarith
  with m show ?thesis by blast
qed

lemma exponent_unique:
  assumes "x \<noteq> 0" "2 powi e \<le> \<bar>x\<bar>" "\<bar>x\<bar> < 2 powi (e + 1)"
  shows "exponent x = e"
proof (rule ccontr)
  assume n: "exponent x \<noteq> e"
  show False
  proof (cases "exponent x < e")
    case True
    then have "exponent x + 1 \<le> e" by simp
    then have "(2::real) powi (exponent x + 1) \<le> 2 powi e"
      by (intro power_int_increasing) simp_all
    with exponent_bounds(2)[OF assms(1)] assms(2) show False by linarith
  next
    case False
    with n have "e + 1 \<le> exponent x" by simp
    then have "(2::real) powi (e + 1) \<le> 2 powi (exponent x)"
      by (intro power_int_increasing) simp_all
    with exponent_bounds(1)[OF assms(1)] assms(3) show False by linarith
  qed
qed

lemma roundHalfEven_near:
  assumes "\<bar>m - real_of_int k\<bar> < 1 / 2"
  shows "roundHalfEven m = k"
proof -
  have "\<lfloor>m\<rfloor> = k \<or> \<lfloor>m\<rfloor> = k - 1" using assms by linarith
  then show ?thesis
  proof
    assume f: "\<lfloor>m\<rfloor> = k"
    then have "m - real_of_int k < 1 / 2" using assms by linarith
    with f show ?thesis by (simp add: roundHalfEven_def Let_def)
  next
    assume f: "\<lfloor>m\<rfloor> = k - 1"
    have "real_of_int k - 1 / 2 < m" using assms by linarith
    then have "1 / 2 < m - real_of_int (k - 1)" by simp
    with f show ?thesis by (simp add: roundHalfEven_def Let_def)
  qed
qed

lemma roundHalfEven_tie:
  assumes "m = real_of_int k + 1 / 2"
  shows "roundHalfEven m = (if even k then k else k + 1)"
proof -
  have "\<lfloor>m\<rfloor> = k" using assms by linarith
  then show ?thesis using assms by (simp add: roundHalfEven_def Let_def)
qed

text \<open>
  Certificates for the rounding of a product in the normal range: the exponent \<open>e\<close>
  and the rounded significand \<open>k\<close>.
\<close>

lemma toDouble_near:
  assumes "2 powi e \<le> \<bar>x\<bar>" "\<bar>x\<bar> < 2 powi (e + 1)" "- 1022 \<le> e" "e \<le> 900"
      and "\<bar>x / 2 powi (e - 52) - real_of_int k\<bar> < 1 / 2"
  shows "toDouble x = Num (real_of_int k * 2 powi (e - 52))"
proof -
  have x: "x \<noteq> 0"
  proof
    assume "x = 0"
    with assms(1) have "(2::real) powi e \<le> 0" by simp
    moreover have "(0::real) < 2 powi e" by simp
    ultimately show False by linarith
  qed
  have e: "exponent x = e" using x assms(1,2) by (rule exponent_unique)
  have q: "max (e - 52) (- 1074) = e - 52" using assms(3) by simp
  have r: "roundToDouble x = real_of_int k * 2 powi (e - 52)"
    using x by (simp add: roundToDouble_def Let_def e q roundHalfEven_near[OF assms(5)])
  have "(2::real) powi (e + 1) \<le> 2 powi 901"
    using assms(4) by (intro power_int_increasing) simp_all
  also have "(2::real) powi 901 \<le> 2 ^ 1000"
  proof -
    have "(2::real) powi 901 = 2 ^ 901" by (simp add: power_int_def)
    also have "\<dots> \<le> 2 ^ 1000" by (intro power_increasing) simp_all
    finally show ?thesis .
  qed
  finally have "\<bar>x\<bar> \<le> 2 ^ 1000" using assms(2) by linarith
  then show ?thesis using toDouble_finite[of x] r by simp
qed

lemma toDouble_tie:
  assumes "2 powi e \<le> \<bar>x\<bar>" "\<bar>x\<bar> < 2 powi (e + 1)" "- 1022 \<le> e" "e \<le> 900"
      and "x / 2 powi (e - 52) = real_of_int k + 1 / 2"
  shows "toDouble x = Num (real_of_int (if even k then k else k + 1) * 2 powi (e - 52))"
proof -
  have x: "x \<noteq> 0"
  proof
    assume "x = 0"
    with assms(1) have "(2::real) powi e \<le> 0" by simp
    moreover have "(0::real) < 2 powi e" by simp
    ultimately show False by linarith
  qed
  have e: "exponent x = e" using x assms(1,2) by (rule exponent_unique)
  have q: "max (e - 52) (- 1074) = e - 52" using assms(3) by simp
  have r: "roundToDouble x = real_of_int (if even k then k else k + 1) * 2 powi (e - 52)"
    using x by (simp add: roundToDouble_def Let_def e q roundHalfEven_tie[OF assms(5)])
  have "(2::real) powi (e + 1) \<le> 2 powi 901"
    using assms(4) by (intro power_int_increasing) simp_all
  also have "(2::real) powi 901 \<le> 2 ^ 1000"
  proof -
    have "(2::real) powi 901 = 2 ^ 901" by (simp add: power_int_def)
    also have "\<dots> \<le> 2 ^ 1000" by (intro power_increasing) simp_all
    finally show ?thesis .
  qed
  finally have "\<bar>x\<bar> \<le> 2 ^ 1000" using assms(2) by linarith
  then show ?thesis using toDouble_finite[of x] r by simp
qed

lemma toDouble_zero: "toDouble 0 = Num 0"
  by (simp add: toDouble_def roundToDouble_def maxDouble_def)

lemma ex_third_x: "jsTimes (bb_x ex_third) 5 = Num (3 / 2)"
proof -
  have "toDouble (5404319552844595 / 2 ^ 54 * 5) = Num (real_of_int 6755399441055744 * 2 powi (0 - 52))"
    by (rule toDouble_near) (simp_all add: power_int_minus)
  then show ?thesis by (simp add: ex_third_def power_int_minus)
qed

lemma ex_third_y: "jsTimes (bb_y ex_third) 3 = Num (1 / 2)"
proof -
  have "toDouble (6004799503160661 / 2 ^ 55 * 3) =
          Num (real_of_int (if even (9007199254740991::int) then 9007199254740991 else 9007199254740991 + 1)
               * 2 powi (- 2 - 52))"
    by (rule toDouble_tie) (simp_all add: power_int_minus)
  then show ?thesis by (simp add: ex_third_def power_int_minus)
qed

lemma toDouble_of_int:
  assumes "\<bar>k\<bar> < 2 ^ 53"
  shows "toDouble (real_of_int k) = Num (real_of_int k)"
  using jsPlus_exact[of k 0] assms by simp

lemma toDouble_numeral:
  "numeral n < (2::int) ^ 53 \<Longrightarrow> toDouble (numeral n) = Num (numeral n)"
  using toDouble_of_int[of "numeral n"] by simp

lemma toDouble_one: "toDouble 1 = Num 1"
  using toDouble_of_int[of 1] by simp

lemma palette_read_back:
  "unpremultiply (premultiply (typeToRgba Image)) = (74, 222, 128, 100)"
  "unpremultiply (premultiply (typeToRgba Shape)) = (250, 204, 20, 100)"
  "unpremultiply (premultiply (typeToRgba Text)) = (247, 112, 112, 100)"
  by (simp_all add: unpremultiply_def premultiply_def typeToRgba_def)

lemma layerOutput_decodable:
  "layerOutput env w h layer = Inr out \<Longrightarrow> decodable env layer"
  by (auto simp: layerOutput_def renderLayer_def decodable_def Let_def
      split: option.splits sum.splits)

lemma buildPsd_eq:
  assumes "loadImageData env imageUrl = Inr base"
      and "map (layerOutput env (img_width base) (img_height base)) layers = map Inr outs"
  shows "buildPsd env imageUrl layers =
           Inr \<lparr>doc_width = img_width base, doc_height = img_height base,
                doc_children = rev (originalLayer base # outs)\<rparr>"
proof -
  have len: "length outs = length layers" using assms(2) by (metis length_map)
  have "\<forall>layer \<in> set layers. decodable env layer"
  proof
    fix layer assume "layer \<in> set layers"
    then obtain i where i: "i < length layers" "layers ! i = layer"
      by (auto simp: in_set_conv_nth)
    then have "layerOutput env (img_width base) (img_height base) layer = Inr (outs ! i)"
      using assms(2) len by (metis nth_map)
    then show "decodable env layer" by (rule layerOutput_decodable)
  qed
  from buildPsd_succeeds[OF assms(1) this] obtain outs' where
    b: "buildPsd env imageUrl layers =
          Inr \<lparr>doc_width = img_width base, doc_height = img_height base,
               doc_children = rev (originalLayer base # outs')\<rparr>"
    and m: "map (layerOutput env (img_width base) (img_height base)) layers = map Inr outs'"
    by blast
  from m assms(2) have "map Inr outs' = (map Inr outs :: (error + PsdLayer) list)" by simp
  then have "outs' = outs" by (simp add: inj_map_eq_map)
  with b show ?thesis by simp
qed

lemma ex_sky_rect:
  "guideRect (layer_boundingBox ex_sky) 2 2 =
     \<lparr>rect_x = Num 0, rect_y = Num 0, rect_w = Num 2, rect_h = Num 1\<rparr>"
  by (simp add: guideRect_def ex_sky_def toDouble_zero toDouble_numeral toDouble_one)

lemma ex_sky_out:
  "layerOutput env 2 2 ex_sky =
     Inr \<lparr>psd_name = ''[SHAPE] Sky'',
          psd_imageData = [(250, 204, 20, 100), (250, 204, 20, 100), (0, 0, 0, 0), (0, 0, 0, 0)],
          psd_left = Num 0, psd_top = Num 0, psd_right = Num 2, psd_bottom = Num 2,
          psd_opacity = Some (7 / 10)\<rparr>"
proof -
  have c: "cachedExtraction ex_sky = None" by (simp add: cachedExtraction_def ex_sky_def)
  have t: "layer_type ex_sky = Shape" "layer_name ex_sky = ''Sky''" by (simp_all add: ex_sky_def)
  have u: "[0 ..< 4] = [0, 1, 2, 3::nat]" by (simp add: upt_rec)
  show ?thesis
    unfolding layerOutput_guide[OF c] ex_sky_rect
    by (simp add: guideLayer_def t toUpperCase_typeName palette_read_back u inRect_def
        canvasArgs_def covers_def transparent_def)
qed

lemma ex_void_out:
  "layerOutput env 2 2 ex_void =
     Inr \<lparr>psd_name = ''[SHAPE] Void'',
          psd_imageData = [(0, 0, 0, 0), (0, 0, 0, 0), (0, 0, 0, 0), (0, 0, 0, 0)],
          psd_left = Num 0, psd_top = Num 0, psd_right = Num 2, psd_bottom = Num 2,
          psd_opacity = Some (7 / 10)\<rparr>"
proof -
  have c: "cachedExtraction ex_void = None"
    by (simp add: cachedExtraction_def ex_void_def ex_sky_def)
  have t: "layer_type ex_void = Shape" "layer_name ex_void = ''Void''"
    by (simp_all add: ex_void_def ex_sky_def)
  have u: "[0 ..< 4] = [0, 1, 2, 3::nat]" by (simp add: upt_rec)
  have r: "guideRect (layer_boundingBox ex_void) 2 2 =
     \<lparr>rect_x = NaN, rect_y = Num 0, rect_w = Num 2, rect_h = PosInf\<rparr>"
    by (simp add: guideRect_def ex_void_def toDouble_zero toDouble_numeral toDouble_one)
  show ?thesis
    unfolding layerOutput_guide[OF c] r
    by (simp add: guideLayer_def t toUpperCase_typeName u inRect_def
        canvasArgs_def transparent_def)
qed

lemma ex_logo_out:
  "layerOutput ex_browser 2 2 ex_logo =
     Inr \<lparr>psd_name = ''[Extracted] Logo'', psd_imageData = [(1, 2, 3, 255)],
          psd_left = Num 1, psd_top = Num 1, psd_right = Num 2, psd_bottom = Num 2,
          psd_opacity = None\<rparr>"
proof -
  have c: "cachedExtraction ex_logo = Some ''QUJD''" by (simp add: cachedExtraction_def ex_logo_def)
  have l: "loadImageDataFromBase64 ex_browser ''QUJD'' = Inr ex_cutout"
    by (simp add: loadImageDataFromBase64_def loadImageData_def ex_browser_def)
  show ?thesis
    unfolding layerOutput_extracted[OF c] l
    by (simp add: extractedLayer_def ex_logo_def ex_cutout_def Let_def toDouble_one
        toDouble_numeral)
qed

lemma ex_load: "loadImageData ex_browser ''blob:base'' = Inr ex_base"
  by (simp add: loadImageData_def ex_browser_def)

lemma ex_sky_psd: "buildPsd ex_browser ''blob:base'' [ex_sky, ex_logo] = Inr ex_psd"
proof -
  have w: "img_width ex_base = 2" "img_height ex_base = 2" by (simp_all add: ex_base_def)
  have r: "replicate 4 (10::nat, 20::nat, 30::nat, 255::nat) =
           [(10, 20, 30, 255), (10, 20, 30, 255), (10, 20, 30, 255), (10, 20, 30, 255)]"
    by (simp add: numeral_eq_Suc)
  have "map (layerOutput ex_browser (img_width ex_base) (img_height ex_base)) [ex_sky, ex_logo] =
        map Inr [projr (layerOutput ex_browser 2 2 ex_sky), projr (layerOutput ex_browser 2 2 ex_logo)]"
    by (simp add: w ex_sky_out ex_logo_out)
  from buildPsd_eq[OF ex_load this] show ?thesis
    by (simp add: w ex_sky_out ex_logo_out originalLayer_def ex_psd_def ex_base_def r)
qed

lemma ex_logo_psd200: "buildPsd ex_browser200 ''blob:base'' [ex_logo] = Inr ex_psd200"
proof -
  have b: "loadImageData ex_browser200 ''blob:base'' = Inr ex_base200"
    by (simp add: loadImageData_def ex_browser200_def)
  have w: "img_width ex_base200 = 200" "img_height ex_base200 = 200"
    by (simp_all add: ex_base200_def)
  have c: "cachedExtraction ex_logo = Some ''QUJD''" by (simp add: cachedExtraction_def ex_logo_def)
  have l: "loadImageDataFromBase64 ex_browser200 ''QUJD'' = Inr ex_cutout40"
    by (simp add: loadImageDataFromBase64_def loadImageData_def ex_browser200_def)
  have o: "layerOutput ex_browser200 200 200 ex_logo =
     Inr \<lparr>psd_name = ''[Extracted] Logo'', psd_imageData = replicate 1600 (1, 2, 3, 255),
          psd_left = Num 100, psd_top = Num 100, psd_right = Num 140, psd_bottom = Num 140,
          psd_opacity = None\<rparr>"
    unfolding layerOutput_extracted[OF c] l
    by (simp add: extractedLayer_def ex_logo_def ex_cutout40_def Let_def toDouble_numeral)
  have "map (layerOutput ex_browser200 (img_width ex_base200) (img_height ex_base200)) [ex_logo] =
        map Inr [projr (layerOutput ex_browser200 200 200 ex_logo)]"
    by (simp add: w o)
  from buildPsd_eq[OF b this] show ?thesis
    by (simp add: w o originalLayer_def ex_psd200_def ex_base200_def)
qed

lemma ex_badge_psd53: "buildPsd ex_browser53 ''blob:base'' [ex_badge] = Inr ex_psd53"
proof -
  have b: "loadImageData ex_browser53 ''blob:base'' = Inr ex_base53"
    by (simp add: loadImageData_def ex_browser53_def)
  have w: "img_width ex_base53 = 5" "img_height ex_base53 = 3"
    by (simp_all add: ex_base53_def)
  have c: "cachedExtraction ex_badge = Some ''QUJD''"
    by (simp add: cachedExtraction_def ex_badge_def ex_logo_def)
  have l: "loadImageDataFromBase64 ex_browser53 ''QUJD'' = Inr ex_cutout"
    by (simp add: loadImageDataFromBase64_def loadImageData_def ex_browser53_def)
  have bb: "layer_boundingBox ex_badge = ex_third" "layer_name ex_badge = ''Badge''"
    by (simp_all add: ex_badge_def)
  have o: "layerOutput ex_browser53 5 3 ex_badge =
     Inr \<lparr>psd_name = ''[Extracted] Badge'', psd_imageData = [(1, 2, 3, 255)],
          psd_left = Num 2, psd_top = Num 1, psd_right = Num 3, psd_bottom = Num 2,
          psd_opacity = None\<rparr>"
    unfolding layerOutput_extracted[OF c] l
    by (simp add: extractedLayer_def bb ex_third_x ex_third_y ex_cutout_def Let_def
        toDouble_numeral)
  have "map (layerOutput ex_browser53 (img_width ex_base53) (img_height ex_base53)) [ex_badge] =
        map Inr [projr (layerOutput ex_browser53 5 3 ex_badge)]"
    by (simp add: w o)
  from buildPsd_eq[OF b this] show ?thesis
    by (simp add: w o originalLayer_def ex_psd53_def ex_base53_def)
qed

section \<open>Properties of the assembler\<close>

text \<open>
  Claim C1. For a non-empty layer array, when the source image decodes and every cached
  extraction the loop decodes does decode, \<open>exportToPsd\<close> serializes a document whose
  layer list is the reverse of the original-image layer followed by one output layer per
  input layer, in the input order (\<open>outs\<close> lists, position by position, what the loop
  pushes for each input layer). The list has one more element than the input, its first
  element is the output of the last (foreground-most) input layer and its last element
  is the original image.
\<close>

theorem exportToPsd_layer_order:
  assumes "layers \<noteq> []"
      and "loadImageData env imageUrl = Inr base"
      and "\<forall>layer \<in> set layers. decodable env layer"
  shows "\<exists>outs.
           map (layerOutput env (img_width base) (img_height base)) layers = map Inr outs \<and>
           buildPsd env imageUrl layers =
             Inr \<lparr>doc_width = img_width base, doc_height = img_height base,
                  doc_children = rev (originalLayer base # outs)\<rparr> \<and>
           exportToPsd env writePsd imageUrl layers =
             Inr (writePsd \<lparr>doc_width = img_width base, doc_height = img_height base,
                  doc_children = rev (originalLayer base # outs)\<rparr>) \<and>
           length (rev (originalLayer base # outs)) = 1 + length layers \<and>
           layerOutput env (img_width base) (img_height base) (last layers) =
             Inr (hd (rev (originalLayer base # outs))) \<and>
           last (rev (originalLayer base # outs)) = originalLayer base"
proof -
  from buildPsd_succeeds[OF assms(2,3)] obtain outs where
    b: "buildPsd env imageUrl layers =
          Inr \<lparr>doc_width = img_width base, doc_height = img_height base,
               doc_children = rev (originalLayer base # outs)\<rparr>"
    and m: "map (layerOutput env (img_width base) (img_height base)) layers = map Inr outs"
    by blast
  have len: "length outs = length layers" using m by (metis length_map)
  then have ne: "outs \<noteq> []" using assms(1) by auto
  have "map (layerOutput env (img_width base) (img_height base)) layers ! (length layers - 1)
          = map Inr outs ! (length layers - 1)"
    using m by simp
  then have "layerOutput env (img_width base) (img_height base) (layers ! (length layers - 1))
          = Inr (outs ! (length outs - 1))"
    using assms(1) ne len by simp
  then have l: "layerOutput env (img_width base) (img_height base) (last layers) = Inr (last outs)"
    using assms(1) ne by (simp add: last_conv_nth)
  have h: "hd (rev (originalLayer base # outs)) = last outs"
    using ne by (simp add: hd_append hd_rev)
  show ?thesis
    using b m len l h by (intro exI[of _ outs]) (simp add: exportToPsd_def)
qed

theorem exportToPsd_layer_order_witness:
  "[ex_sky, ex_logo] \<noteq> [] \<and>
   loadImageData ex_browser ''blob:base'' = Inr ex_base \<and>
   decodable ex_browser ex_sky \<and> decodable ex_browser ex_logo \<and>
   (\<exists>outs.
      map (layerOutput ex_browser (img_width ex_base) (img_height ex_base)) [ex_sky, ex_logo] = map Inr outs \<and>
      buildPsd ex_browser ''blob:base'' [ex_sky, ex_logo] =
        Inr \<lparr>doc_width = img_width ex_base, doc_height = img_height ex_base,
             doc_children = rev (originalLayer ex_base # outs)\<rparr> \<and>
      exportToPsd ex_browser ex_writePsd ''blob:base'' [ex_sky, ex_logo] =
        Inr (ex_writePsd \<lparr>doc_width = img_width ex_base, doc_height = img_height ex_base,
             doc_children = rev (originalLayer ex_base # outs)\<rparr>) \<and>
      length (rev (originalLayer ex_base # outs)) = 1 + length [ex_sky, ex_logo] \<and>
      layerOutput ex_browser (img_width ex_base) (img_height ex_base) (last [ex_sky, ex_logo]) =
        Inr (hd (rev (originalLayer ex_base # outs))) \<and>
      last (rev (originalLayer ex_base # outs)) = originalLayer ex_base) \<and>
   buildPsd ex_browser ''blob:base'' [ex_sky, ex_logo] = Inr ex_psd \<and>
   map psd_name (doc_children ex_psd) = [''[Extracted] Logo'', ''[SHAPE] Sky'', ''Original Image'']"
proof -
  have h1: "[ex_sky, ex_logo] \<noteq> []" by simp
  have h2: "loadImageData ex_browser ''blob:base'' = Inr ex_base"
    by (simp add: loadImageData_def ex_browser_def)
  have d1: "decodable ex_browser ex_sky"
    by (simp add: decodable_def cachedExtraction_def ex_sky_def)
  have d2: "decodable ex_browser ex_logo"
    by (simp add: decodable_def cachedExtraction_def ex_logo_def loadImageDataFromBase64_def
        loadImageData_def ex_browser_def)
  have h3: "\<forall>layer \<in> set [ex_sky, ex_logo]. decodable ex_browser layer"
    using d1 d2 by simp
  have n: "map psd_name (doc_children ex_psd) =
             [''[Extracted] Logo'', ''[SHAPE] Sky'', ''Original Image'']"
    by (simp add: ex_psd_def)
  show ?thesis
    using h1 h2 d1 d2 ex_sky_psd n exportToPsd_layer_order[OF h1 h2 h3, of ex_writePsd]
    by blast
qed

text \<open>
  Claim C2. In every document the assembler builds, the layer that stands for an input
  layer which is not an image, or which is an image without cached extraction (the field
  absent or the empty string), is a guide layer: it spans the canvas, carries opacity
  0.7 (below full), is named by the category tag in upper case in brackets followed by
  the layer name, and its pixels are the category colour inside the rectangle obtained
  by scaling the bounding box to the canvas and rounding, and transparent elsewhere.
  The scaling is the double product followed by \<^verbatim>\<open>Math.round\<close>; for finite box
  values the rectangle is given by the rounded integers, and when a value is infinite or
  NaN nothing is filled. The fill style is the palette colour (green for image, yellow
  for shape, red for text, each with alpha 100 of 255); the bytes read back from the
  canvas are that colour after the premultiplied round trip, which leaves the image
  colour as it is and lowers one channel of the shape colour and the three channels of
  the text colour by one. The same layer comes out in any other browser \<open>env'\<close>:
  nothing is decoded or extracted for it.
\<close>

theorem guide_layer_without_extraction:
  assumes "buildPsd env imageUrl layers = Inr psd"
      and "i < length layers"
      and "layer_type (layers ! i) \<noteq> Image \<or> layer_extractedImage (layers ! i) = None \<or>
           layer_extractedImage (layers ! i) = Some []"
  shows "doc_children psd ! (length layers - 1 - i) =
           \<lparr>psd_name = ''['' @ toUpperCase (typeName (layer_type (layers ! i))) @ ''] ''
                          @ layer_name (layers ! i),
            psd_imageData =
              map (\<lambda>k. if inRect
                            \<lparr>rect_x = Math_round (jsTimes (bb_x (layer_boundingBox (layers ! i))) (doc_width psd)),
                             rect_y = Math_round (jsTimes (bb_y (layer_boundingBox (layers ! i))) (doc_height psd)),
                             rect_w = Math_round (jsTimes (bb_width (layer_boundingBox (layers ! i))) (doc_width psd)),
                             rect_h = Math_round (jsTimes (bb_height (layer_boundingBox (layers ! i))) (doc_height psd))\<rparr>
                            (k mod doc_width psd) (k div doc_width psd)
                        then unpremultiply (premultiply (typeToRgba (layer_type (layers ! i))))
                        else transparent)
                  [0 ..< doc_width psd * doc_height psd],
            psd_left = Num 0, psd_top = Num 0,
            psd_right = Num (real (doc_width psd)), psd_bottom = Num (real (doc_height psd)),
            psd_opacity = Some (7 / 10)\<rparr> \<and>
         effectiveOpacity (doc_children psd ! (length layers - 1 - i)) < 1 \<and>
         layerOutput env' (doc_width psd) (doc_height psd) (layers ! i) =
           Inr (doc_children psd ! (length layers - 1 - i)) \<and>
         (layer_boundingBox (layers ! i) =
            \<lparr>bb_x = Num ax, bb_y = Num ay, bb_width = Num aw, bb_height = Num ah\<rparr> \<and>
          \<bar>ax * real (doc_width psd)\<bar> \<le> 2 ^ 1000 \<and> \<bar>ay * real (doc_height psd)\<bar> \<le> 2 ^ 1000 \<and>
          \<bar>aw * real (doc_width psd)\<bar> \<le> 2 ^ 1000 \<and> \<bar>ah * real (doc_height psd)\<bar> \<le> 2 ^ 1000 \<longrightarrow>
            psd_imageData (doc_children psd ! (length layers - 1 - i)) =
              map (\<lambda>k. if covers
                            \<lfloor>roundToDouble (ax * real (doc_width psd)) + 1 / 2\<rfloor>
                            \<lfloor>roundToDouble (ay * real (doc_height psd)) + 1 / 2\<rfloor>
                            \<lfloor>roundToDouble (aw * real (doc_width psd)) + 1 / 2\<rfloor>
                            \<lfloor>roundToDouble (ah * real (doc_height psd)) + 1 / 2\<rfloor>
                            (k mod doc_width psd) (k div doc_width psd)
                        then unpremultiply (premultiply (typeToRgba (layer_type (layers ! i))))
                        else transparent)
                  [0 ..< doc_width psd * doc_height psd]) \<and>
         (bb_x (layer_boundingBox (layers ! i)) \<in> {PosInf, NegInf, NaN} \<or>
          bb_y (layer_boundingBox (layers ! i)) \<in> {PosInf, NegInf, NaN} \<or>
          bb_width (layer_boundingBox (layers ! i)) \<in> {PosInf, NegInf, NaN} \<or>
          bb_height (layer_boundingBox (layers ! i)) \<in> {PosInf, NegInf, NaN} \<longrightarrow>
            psd_imageData (doc_children psd ! (length layers - 1 - i)) =
              replicate (doc_width psd * doc_height psd) transparent) \<and>
         typeToRgba Image = (74, 222, 128, 100) \<and>
         typeToRgba Shape = (250, 204, 21, 100) \<and>
         typeToRgba Text = (248, 113, 113, 100) \<and>
         unpremultiply (premultiply (typeToRgba Image)) = (74, 222, 128, 100) \<and>
         unpremultiply (premultiply (typeToRgba Shape)) = (250, 204, 20, 100) \<and>
         unpremultiply (premultiply (typeToRgba Text)) = (247, 112, 112, 100) \<and>
         toUpperCase (typeName Image) = ''IMAGE'' \<and>
         toUpperCase (typeName Shape) = ''SHAPE'' \<and>
         toUpperCase (typeName Text) = ''TEXT''"
proof -
  let ?l = "layers ! i"
  let ?W = "doc_width psd"
  let ?H = "doc_height psd"
  let ?out = "doc_children psd ! (length layers - 1 - i)"
  let ?col = "unpremultiply (premultiply (typeToRgba (layer_type ?l)))"
  have c: "cachedExtraction ?l = None" using assms(3) by (rule cachedExtraction_None)
  have o: "layerOutput env ?W ?H ?l = Inr ?out"
    using assms(1,2) by (rule buildPsd_child)
  have g: "?out =
      guideLayer ?l
        (map (\<lambda>k. if inRect (guideRect (layer_boundingBox ?l) ?W ?H) (k mod ?W) (k div ?W)
                  then ?col else transparent) [0 ..< ?W * ?H]) ?W ?H"
    using o layerOutput_guide[OF c, of env ?W ?H] by simp
  have e: "layerOutput env' ?W ?H ?l = Inr ?out"
    using g layerOutput_guide[OF c, of env' ?W ?H] by simp
  have r: "?out =
           \<lparr>psd_name = ''['' @ toUpperCase (typeName (layer_type ?l)) @ ''] '' @ layer_name ?l,
            psd_imageData =
              map (\<lambda>k. if inRect
                            \<lparr>rect_x = Math_round (jsTimes (bb_x (layer_boundingBox ?l)) ?W),
                             rect_y = Math_round (jsTimes (bb_y (layer_boundingBox ?l)) ?H),
                             rect_w = Math_round (jsTimes (bb_width (layer_boundingBox ?l)) ?W),
                             rect_h = Math_round (jsTimes (bb_height (layer_boundingBox ?l)) ?H)\<rparr>
                            (k mod ?W) (k div ?W)
                        then ?col else transparent)
                  [0 ..< ?W * ?H],
            psd_left = Num 0, psd_top = Num 0,
            psd_right = Num (real ?W), psd_bottom = Num (real ?H),
            psd_opacity = Some (7 / 10)\<rparr>"
    unfolding g by (simp add: guideLayer_def guideRect_def)
  have p: "effectiveOpacity ?out < 1"
    unfolding g by (simp add: guideLayer_def effectiveOpacity_def)
  have f: "layer_boundingBox ?l =
            \<lparr>bb_x = Num ax, bb_y = Num ay, bb_width = Num aw, bb_height = Num ah\<rparr> \<and>
          \<bar>ax * real ?W\<bar> \<le> 2 ^ 1000 \<and> \<bar>ay * real ?H\<bar> \<le> 2 ^ 1000 \<and>
          \<bar>aw * real ?W\<bar> \<le> 2 ^ 1000 \<and> \<bar>ah * real ?H\<bar> \<le> 2 ^ 1000 \<longrightarrow>
            psd_imageData ?out =
              map (\<lambda>k. if covers
                            \<lfloor>roundToDouble (ax * real ?W) + 1 / 2\<rfloor>
                            \<lfloor>roundToDouble (ay * real ?H) + 1 / 2\<rfloor>
                            \<lfloor>roundToDouble (aw * real ?W) + 1 / 2\<rfloor>
                            \<lfloor>roundToDouble (ah * real ?H) + 1 / 2\<rfloor>
                            (k mod ?W) (k div ?W)
                        then ?col else transparent)
                  [0 ..< ?W * ?H]"
  proof (intro impI)
    assume h: "layer_boundingBox ?l =
            \<lparr>bb_x = Num ax, bb_y = Num ay, bb_width = Num aw, bb_height = Num ah\<rparr> \<and>
          \<bar>ax * real ?W\<bar> \<le> 2 ^ 1000 \<and> \<bar>ay * real ?H\<bar> \<le> 2 ^ 1000 \<and>
          \<bar>aw * real ?W\<bar> \<le> 2 ^ 1000 \<and> \<bar>ah * real ?H\<bar> \<le> 2 ^ 1000"
    then have m: "jsTimes (Num ax) ?W = Num (roundToDouble (ax * real ?W))"
                 "jsTimes (Num ay) ?H = Num (roundToDouble (ay * real ?H))"
                 "jsTimes (Num aw) ?W = Num (roundToDouble (aw * real ?W))"
                 "jsTimes (Num ah) ?H = Num (roundToDouble (ah * real ?H))"
      by (simp_all only: jsTimes_finite)
    have "guideRect (layer_boundingBox ?l) ?W ?H =
            \<lparr>rect_x = Num (real_of_int \<lfloor>roundToDouble (ax * real ?W) + 1 / 2\<rfloor>),
             rect_y = Num (real_of_int \<lfloor>roundToDouble (ay * real ?H) + 1 / 2\<rfloor>),
             rect_w = Num (real_of_int \<lfloor>roundToDouble (aw * real ?W) + 1 / 2\<rfloor>),
             rect_h = Num (real_of_int \<lfloor>roundToDouble (ah * real ?H) + 1 / 2\<rfloor>)\<rparr>"
      using h unfolding guideRect_def by (simp add: m del: jsTimes.simps)
    then show "psd_imageData ?out =
              map (\<lambda>k. if covers
                            \<lfloor>roundToDouble (ax * real ?W) + 1 / 2\<rfloor>
                            \<lfloor>roundToDouble (ay * real ?H) + 1 / 2\<rfloor>
                            \<lfloor>roundToDouble (aw * real ?W) + 1 / 2\<rfloor>
                            \<lfloor>roundToDouble (ah * real ?H) + 1 / 2\<rfloor>
                            (k mod ?W) (k div ?W)
                        then ?col else transparent)
                  [0 ..< ?W * ?H]"
      unfolding g by (simp add: guideLayer_def inRect_def canvasArgs_def)
  qed
  have nf: "bb_x (layer_boundingBox ?l) \<in> {PosInf, NegInf, NaN} \<or>
          bb_y (layer_boundingBox ?l) \<in> {PosInf, NegInf, NaN} \<or>
          bb_width (layer_boundingBox ?l) \<in> {PosInf, NegInf, NaN} \<or>
          bb_height (layer_boundingBox ?l) \<in> {PosInf, NegInf, NaN} \<longrightarrow>
            psd_imageData ?out = replicate (?W * ?H) transparent"
  proof (intro impI)
    assume h: "bb_x (layer_boundingBox ?l) \<in> {PosInf, NegInf, NaN} \<or>
          bb_y (layer_boundingBox ?l) \<in> {PosInf, NegInf, NaN} \<or>
          bb_width (layer_boundingBox ?l) \<in> {PosInf, NegInf, NaN} \<or>
          bb_height (layer_boundingBox ?l) \<in> {PosInf, NegInf, NaN}"
    have n: "v \<in> {PosInf, NegInf, NaN} \<Longrightarrow> rectArg (Math_round (jsTimes v n)) = None" for v n
      by auto
    let ?r = "guideRect (layer_boundingBox ?l) ?W ?H"
    have "rectArg (rect_x ?r) = None \<or> rectArg (rect_y ?r) = None \<or>
          rectArg (rect_w ?r) = None \<or> rectArg (rect_h ?r) = None"
      using h n by (auto simp: guideRect_def simp del: jsTimes.simps Math_round.simps)
    then have "canvasArgs (rect_x ?r) (rect_y ?r) (rect_w ?r) (rect_h ?r) = None"
      by (auto simp: canvasArgs_def split: option.splits)
    then have "\<And>px py. \<not> inRect ?r px py" by (simp add: inRect_def)
    then show "psd_imageData ?out = replicate (?W * ?H) transparent"
      unfolding g by (simp add: guideLayer_def map_replicate_const)
  qed
  have t: "typeToRgba Image = (74, 222, 128, 100)" "typeToRgba Shape = (250, 204, 21, 100)"
          "typeToRgba Text = (248, 113, 113, 100)"
    by (simp_all add: typeToRgba_def)
  from r p e f nf t palette_read_back toUpperCase_typeName show ?thesis by blast
qed

theorem guide_layer_without_extraction_witness:
  "buildPsd ex_browser ''blob:base'' [ex_sky, ex_logo] = Inr ex_psd \<and>
   (0::nat) < length [ex_sky, ex_logo] \<and>
   layer_extractedImage ([ex_sky, ex_logo] ! 0) = None \<and>
   doc_children ex_psd ! (length [ex_sky, ex_logo] - 1 - 0) =
     \<lparr>psd_name = ''[SHAPE] Sky'',
      psd_imageData = [(250, 204, 20, 100), (250, 204, 20, 100), (0, 0, 0, 0), (0, 0, 0, 0)],
      psd_left = Num 0, psd_top = Num 0, psd_right = Num 2, psd_bottom = Num 2,
      psd_opacity = Some (7 / 10)\<rparr> \<and>
   effectiveOpacity (doc_children ex_psd ! (length [ex_sky, ex_logo] - 1 - 0)) < 1 \<and>
   layerOutput ex_browser200 (doc_width ex_psd) (doc_height ex_psd) ([ex_sky, ex_logo] ! 0) =
     Inr (doc_children ex_psd ! (length [ex_sky, ex_logo] - 1 - 0)) \<and>
   buildPsd ex_browser ''blob:base'' [ex_empty] =
     Inr \<lparr>doc_width = 2, doc_height = 2,
          doc_children = [projr (layerOutput ex_browser 2 2 ex_empty), originalLayer ex_base]\<rparr> \<and>
   layer_extractedImage ([ex_empty] ! 0) = Some [] \<and>
   effectiveOpacity (projr (layerOutput ex_browser 2 2 ex_empty)) < 1"
proof -
  have h2: "(0::nat) < length [ex_sky, ex_logo]" by simp
  have n: "layer_extractedImage ([ex_sky, ex_logo] ! 0) = None" by (simp add: ex_sky_def)
  then have h3: "layer_type ([ex_sky, ex_logo] ! 0) \<noteq> Image \<or>
                 layer_extractedImage ([ex_sky, ex_logo] ! 0) = None \<or>
                 layer_extractedImage ([ex_sky, ex_logo] ! 0) = Some []" by blast
  have c: "doc_children ex_psd ! (length [ex_sky, ex_logo] - 1 - 0) =
     \<lparr>psd_name = ''[SHAPE] Sky'',
      psd_imageData = [(250, 204, 20, 100), (250, 204, 20, 100), (0, 0, 0, 0), (0, 0, 0, 0)],
      psd_left = Num 0, psd_top = Num 0, psd_right = Num 2, psd_bottom = Num 2,
      psd_opacity = Some (7 / 10)\<rparr>"
    by (simp add: ex_psd_def)
  from guide_layer_without_extraction[OF ex_sky_psd h2 h3, of ex_browser200]
  have a: "effectiveOpacity (doc_children ex_psd ! (length [ex_sky, ex_logo] - 1 - 0)) < 1"
    and b: "layerOutput ex_browser200 (doc_width ex_psd) (doc_height ex_psd) ([ex_sky, ex_logo] ! 0) =
           Inr (doc_children ex_psd ! (length [ex_sky, ex_logo] - 1 - 0))"
    by blast+
  let ?e = "projr (layerOutput ex_browser 2 2 ex_empty)"
  have ce: "cachedExtraction ex_empty = None"
    by (simp add: cachedExtraction_def ex_empty_def)
  have oe: "layerOutput ex_browser 2 2 ex_empty = Inr ?e"
    unfolding layerOutput_guide[OF ce] by simp
  have w: "img_width ex_base = 2" "img_height ex_base = 2" by (simp_all add: ex_base_def)
  have "map (layerOutput ex_browser (img_width ex_base) (img_height ex_base)) [ex_empty] = map Inr [?e]"
    using oe by (simp add: w)
  from buildPsd_eq[OF ex_load this]
  have pe: "buildPsd ex_browser ''blob:base'' [ex_empty] =
     Inr \<lparr>doc_width = 2, doc_height = 2, doc_children = [?e, originalLayer ex_base]\<rparr>"
    by (simp add: w)
  have h2e: "(0::nat) < length [ex_empty]" by simp
  have ne: "layer_extractedImage ([ex_empty] ! 0) = Some []" by (simp add: ex_empty_def)
  then have h3e: "layer_type ([ex_empty] ! 0) \<noteq> Image \<or>
                  layer_extractedImage ([ex_empty] ! 0) = None \<or>
                  layer_extractedImage ([ex_empty] ! 0) = Some []" by blast
  from guide_layer_without_extraction[OF pe h2e h3e, of ex_browser]
  have "effectiveOpacity
          (doc_children \<lparr>doc_width = 2, doc_height = 2,
                          doc_children = [?e, originalLayer ex_base]\<rparr>
             ! (length [ex_empty] - 1 - 0)) < 1"
    by blast
  then have "effectiveOpacity ?e < 1" by simp
  with ex_sky_psd h2 n c a b pe ne show ?thesis by blast
qed

text \<open>
  Claim C3. In every document the assembler builds, the layer that stands for an image
  layer with a cached (non-empty) extraction holds the decoded cutout; its left and top
  are \<^verbatim>\<open>Math.round\<close> of the double products of the box origin and the canvas
  width and height, its right and bottom are left and top plus the cutout's own width
  and height, whatever the width and height of the bounding box, and it has no opacity
  field and so is stored at full opacity. For finite origins and sizes below
  \<open>2 ^ 31\<close> pixels, left and top are the integers nearest to the double products (a
  tie going up) and right and bottom are the exact integer sums. On a 200 by 200 canvas
  a 40 by 40 cutout with origin (0.5, 0.5) covers (100, 100) to (140, 140); on a 5 by 3
  canvas the origin at the doubles nearest 0.3 and 1/6 is placed at (2, 1).
\<close>

theorem extracted_layer_placement:
  assumes "buildPsd env imageUrl layers = Inr psd"
      and "i < length layers"
      and "layer_type (layers ! i) = Image"
      and "layer_extractedImage (layers ! i) = Some b64"
      and "b64 \<noteq> []"
  shows "\<exists>extracted.
           loadImageDataFromBase64 env b64 = Inr extracted \<and>
           doc_children psd ! (length layers - 1 - i) =
             \<lparr>psd_name = ''[Extracted] '' @ layer_name (layers ! i),
              psd_imageData = img_data extracted,
              psd_left = Math_round (jsTimes (bb_x (layer_boundingBox (layers ! i))) (doc_width psd)),
              psd_top = Math_round (jsTimes (bb_y (layer_boundingBox (layers ! i))) (doc_height psd)),
              psd_right =
                jsPlus (Math_round (jsTimes (bb_x (layer_boundingBox (layers ! i))) (doc_width psd)))
                  (img_width extracted),
              psd_bottom =
                jsPlus (Math_round (jsTimes (bb_y (layer_boundingBox (layers ! i))) (doc_height psd)))
                  (img_height extracted),
              psd_opacity = None\<rparr> \<and>
           effectiveOpacity (doc_children psd ! (length layers - 1 - i)) = 1 \<and>
           (bb_x (layer_boundingBox (layers ! i)) = Num ax \<and>
            bb_y (layer_boundingBox (layers ! i)) = Num ay \<and>
            \<bar>ax * real (doc_width psd)\<bar> \<le> 2 ^ 31 \<and> \<bar>ay * real (doc_height psd)\<bar> \<le> 2 ^ 31 \<and>
            img_width extracted < 2 ^ 32 \<and> img_height extracted < 2 ^ 32 \<longrightarrow>
              (\<exists>left top.
                 real_of_int left - 1 / 2 \<le> roundToDouble (ax * real (doc_width psd)) \<and>
                 roundToDouble (ax * real (doc_width psd)) < real_of_int left + 1 / 2 \<and>
                 real_of_int top - 1 / 2 \<le> roundToDouble (ay * real (doc_height psd)) \<and>
                 roundToDouble (ay * real (doc_height psd)) < real_of_int top + 1 / 2 \<and>
                 psd_left (doc_children psd ! (length layers - 1 - i)) = Num (real_of_int left) \<and>
                 psd_top (doc_children psd ! (length layers - 1 - i)) = Num (real_of_int top) \<and>
                 psd_right (doc_children psd ! (length layers - 1 - i)) =
                   Num (real_of_int (left + int (img_width extracted))) \<and>
                 psd_bottom (doc_children psd ! (length layers - 1 - i)) =
                   Num (real_of_int (top + int (img_height extracted)))))"
proof -
  let ?l = "layers ! i"
  let ?W = "doc_width psd"
  let ?H = "doc_height psd"
  let ?out = "doc_children psd ! (length layers - 1 - i)"
  have c: "cachedExtraction ?l = Some b64"
    using assms(3,4,5) by (rule cachedExtraction_Some)
  have o: "layerOutput env ?W ?H ?l = Inr ?out"
    using assms(1,2) by (rule buildPsd_child)
  then obtain extracted where
    l: "loadImageDataFromBase64 env b64 = Inr extracted"
    and e: "?out = extractedLayer ?l extracted ?W ?H"
    unfolding layerOutput_extracted[OF c] by (auto split: sum.splits)
  have r: "?out =
             \<lparr>psd_name = ''[Extracted] '' @ layer_name ?l,
              psd_imageData = img_data extracted,
              psd_left = Math_round (jsTimes (bb_x (layer_boundingBox ?l)) ?W),
              psd_top = Math_round (jsTimes (bb_y (layer_boundingBox ?l)) ?H),
              psd_right = jsPlus (Math_round (jsTimes (bb_x (layer_boundingBox ?l)) ?W))
                            (img_width extracted),
              psd_bottom = jsPlus (Math_round (jsTimes (bb_y (layer_boundingBox ?l)) ?H))
                            (img_height extracted),
              psd_opacity = None\<rparr>"
    unfolding e by (simp add: extractedLayer_def Let_def)
  have p: "effectiveOpacity ?out = 1"
    unfolding e by (simp add: extractedLayer_def Let_def effectiveOpacity_def)
  have f: "bb_x (layer_boundingBox ?l) = Num ax \<and> bb_y (layer_boundingBox ?l) = Num ay \<and>
            \<bar>ax * real ?W\<bar> \<le> 2 ^ 31 \<and> \<bar>ay * real ?H\<bar> \<le> 2 ^ 31 \<and>
            img_width extracted < 2 ^ 32 \<and> img_height extracted < 2 ^ 32 \<longrightarrow>
              (\<exists>left top.
                 real_of_int left - 1 / 2 \<le> roundToDouble (ax * real ?W) \<and>
                 roundToDouble (ax * real ?W) < real_of_int left + 1 / 2 \<and>
                 real_of_int top - 1 / 2 \<le> roundToDouble (ay * real ?H) \<and>
                 roundToDouble (ay * real ?H) < real_of_int top + 1 / 2 \<and>
                 psd_left ?out = Num (real_of_int left) \<and>
                 psd_top ?out = Num (real_of_int top) \<and>
                 psd_right ?out = Num (real_of_int (left + int (img_width extracted))) \<and>
                 psd_bottom ?out = Num (real_of_int (top + int (img_height extracted))))"
  proof (intro impI)
    assume h: "bb_x (layer_boundingBox ?l) = Num ax \<and> bb_y (layer_boundingBox ?l) = Num ay \<and>
            \<bar>ax * real ?W\<bar> \<le> 2 ^ 31 \<and> \<bar>ay * real ?H\<bar> \<le> 2 ^ 31 \<and>
            img_width extracted < 2 ^ 32 \<and> img_height extracted < 2 ^ 32"
    let ?px = "roundToDouble (ax * real ?W)"
    let ?py = "roundToDouble (ay * real ?H)"
    let ?left = "\<lfloor>?px + 1 / 2\<rfloor>"
    let ?top = "\<lfloor>?py + 1 / 2\<rfloor>"
    have big: "(2::real) ^ 31 \<le> 2 ^ 1000" by (intro power_increasing) simp_all
    have "\<bar>ax * real ?W\<bar> \<le> 2 ^ 1000" "\<bar>ay * real ?H\<bar> \<le> 2 ^ 1000"
      using h big by linarith+
    then have m: "jsTimes (Num ax) ?W = Num ?px" "jsTimes (Num ay) ?H = Num ?py"
      by (simp_all only: jsTimes_finite)
    have lt: "psd_left ?out = Num (real_of_int ?left)" "psd_top ?out = Num (real_of_int ?top)"
      unfolding r using h by (simp_all add: m del: jsTimes.simps)
    have sl: "\<bar>?left\<bar> \<le> 2 ^ 32" "\<bar>?top\<bar> \<le> 2 ^ 32"
      using h scaled_round_small[of ax ?W] scaled_round_small[of ay ?H] by simp_all
    have "img_width extracted < 2 ^ 32" "img_height extracted < 2 ^ 32" using h by simp_all
    then have "int (img_width extracted) < int (2 ^ 32)" "int (img_height extracted) < int (2 ^ 32)"
      by (simp_all only: of_nat_less_iff)
    then have wi: "int (img_width extracted) < 2 ^ 32" "int (img_height extracted) < 2 ^ 32"
      by simp_all
    have p: "(2::int) ^ 32 + 2 ^ 32 < 2 ^ 53" by simp
    have z: "0 \<le> int (img_width extracted)" "0 \<le> int (img_height extracted)" by simp_all
    have "\<bar>?left + int (img_width extracted)\<bar> < 2 ^ 53"
         "\<bar>?top + int (img_height extracted)\<bar> < 2 ^ 53"
      using sl wi p z by linarith+
    then have pl: "jsPlus (Num (real_of_int ?left)) (img_width extracted) =
                     Num (real_of_int (?left + int (img_width extracted)))"
                  "jsPlus (Num (real_of_int ?top)) (img_height extracted) =
                     Num (real_of_int (?top + int (img_height extracted)))"
      by (simp_all only: jsPlus_exact)
    have rb: "psd_right ?out = Num (real_of_int (?left + int (img_width extracted)))"
             "psd_bottom ?out = Num (real_of_int (?top + int (img_height extracted)))"
      unfolding r using h pl by (simp_all add: m del: jsTimes.simps jsPlus.simps)
    have n: "real_of_int ?left - 1 / 2 \<le> ?px" "?px < real_of_int ?left + 1 / 2"
            "real_of_int ?top - 1 / 2 \<le> ?py" "?py < real_of_int ?top + 1 / 2"
      by linarith+
    from n lt rb show "\<exists>left top.
                 real_of_int left - 1 / 2 \<le> ?px \<and> ?px < real_of_int left + 1 / 2 \<and>
                 real_of_int top - 1 / 2 \<le> ?py \<and> ?py < real_of_int top + 1 / 2 \<and>
                 psd_left ?out = Num (real_of_int left) \<and>
                 psd_top ?out = Num (real_of_int top) \<and>
                 psd_right ?out = Num (real_of_int (left + int (img_width extracted))) \<and>
                 psd_bottom ?out = Num (real_of_int (top + int (img_height extracted)))"
      by blast
  qed
  from l r p f show ?thesis by blast
qed

theorem extracted_layer_placement_witness:
  "buildPsd ex_browser200 ''blob:base'' [ex_logo] = Inr ex_psd200 \<and>
   (0::nat) < length [ex_logo] \<and>
   layer_type ([ex_logo] ! 0) = Image \<and>
   layer_extractedImage ([ex_logo] ! 0) = Some ''QUJD'' \<and>
   bb_x (layer_boundingBox ex_logo) = Num (1 / 2) \<and> bb_y (layer_boundingBox ex_logo) = Num (1 / 2) \<and>
   loadImageDataFromBase64 ex_browser200 ''QUJD'' = Inr ex_cutout40 \<and>
   img_width ex_cutout40 = 40 \<and> img_height ex_cutout40 = 40 \<and>
   psd_left (doc_children ex_psd200 ! (length [ex_logo] - 1 - 0)) = Num 100 \<and>
   psd_top (doc_children ex_psd200 ! (length [ex_logo] - 1 - 0)) = Num 100 \<and>
   psd_right (doc_children ex_psd200 ! (length [ex_logo] - 1 - 0)) = Num 140 \<and>
   psd_bottom (doc_children ex_psd200 ! (length [ex_logo] - 1 - 0)) = Num 140 \<and>
   effectiveOpacity (doc_children ex_psd200 ! (length [ex_logo] - 1 - 0)) = 1 \<and>
   buildPsd ex_browser53 ''blob:base'' [ex_badge] = Inr ex_psd53 \<and>
   layer_type ([ex_badge] ! 0) = Image \<and>
   layer_extractedImage ([ex_badge] ! 0) = Some ''QUJD'' \<and>
   loadImageDataFromBase64 ex_browser53 ''QUJD'' = Inr ex_cutout \<and>
   jsTimes (bb_x (layer_boundingBox ex_badge)) 5 = Num (3 / 2) \<and>
   jsTimes (bb_y (layer_boundingBox ex_badge)) 3 = Num (1 / 2) \<and>
   doc_children ex_psd53 ! (length [ex_badge] - 1 - 0) =
     \<lparr>psd_name = ''[Extracted] Badge'', psd_imageData = [(1, 2, 3, 255)],
      psd_left = Num 2, psd_top = Num 1, psd_right = Num 3, psd_bottom = Num 2,
      psd_opacity = None\<rparr> \<and>
   effectiveOpacity (doc_children ex_psd53 ! (length [ex_badge] - 1 - 0)) = 1"
proof -
  have h2: "(0::nat) < length [ex_logo]" by simp
  have h3: "layer_type ([ex_logo] ! 0) = Image" by (simp add: ex_logo_def)
  have h4: "layer_extractedImage ([ex_logo] ! 0) = Some ''QUJD''" by (simp add: ex_logo_def)
  have h5: "''QUJD'' \<noteq> []" by simp
  have l: "loadImageDataFromBase64 ex_browser200 ''QUJD'' = Inr ex_cutout40"
    by (simp add: loadImageDataFromBase64_def loadImageData_def ex_browser200_def)
  have bb: "bb_x (layer_boundingBox ex_logo) = Num (1 / 2)" "bb_y (layer_boundingBox ex_logo) = Num (1 / 2)"
    by (simp_all add: ex_logo_def)
  have wh: "img_width ex_cutout40 = 40" "img_height ex_cutout40 = 40"
    by (simp_all add: ex_cutout40_def)
  have v: "psd_left (doc_children ex_psd200 ! (length [ex_logo] - 1 - 0)) = Num 100"
          "psd_top (doc_children ex_psd200 ! (length [ex_logo] - 1 - 0)) = Num 100"
          "psd_right (doc_children ex_psd200 ! (length [ex_logo] - 1 - 0)) = Num 140"
          "psd_bottom (doc_children ex_psd200 ! (length [ex_logo] - 1 - 0)) = Num 140"
    by (simp_all add: ex_psd200_def)
  from extracted_layer_placement[OF ex_logo_psd200 h2 h3 h4 h5]
  have o: "effectiveOpacity (doc_children ex_psd200 ! (length [ex_logo] - 1 - 0)) = 1"
    by blast
  have g2: "(0::nat) < length [ex_badge]" by simp
  have g3: "layer_type ([ex_badge] ! 0) = Image" by (simp add: ex_badge_def ex_logo_def)
  have g4: "layer_extractedImage ([ex_badge] ! 0) = Some ''QUJD''"
    by (simp add: ex_badge_def ex_logo_def)
  have gl: "loadImageDataFromBase64 ex_browser53 ''QUJD'' = Inr ex_cutout"
    by (simp add: loadImageDataFromBase64_def loadImageData_def ex_browser53_def)
  have gb: "layer_boundingBox ex_badge = ex_third" by (simp add: ex_badge_def)
  have gc: "doc_children ex_psd53 ! (length [ex_badge] - 1 - 0) =
     \<lparr>psd_name = ''[Extracted] Badge'', psd_imageData = [(1, 2, 3, 255)],
      psd_left = Num 2, psd_top = Num 1, psd_right = Num 3, psd_bottom = Num 2,
      psd_opacity = None\<rparr>"
    by (simp add: ex_psd53_def)
  from extracted_layer_placement[OF ex_badge_psd53 g2 g3 g4 h5]
  have go: "effectiveOpacity (doc_children ex_psd53 ! (length [ex_badge] - 1 - 0)) = 1"
    by blast
  from ex_logo_psd200 h2 h3 h4 bb l wh v o ex_badge_psd53 g3 g4 gl gc go
    ex_third_x ex_third_y gb
  show ?thesis by (simp del: jsTimes.simps)
qed

text \<open>
  Claim C5, as the code has it. When the cached extraction of one layer fails to decode,
  the loop has no fallback for that layer: the failure ends \<open>exportToPsd\<close> as a
  whole, with the decoder's error, and no document is written, whatever layers precede
  or follow. In the sample below the two other layers decode and the broken one alone
  makes the export fail.
\<close>

theorem extraction_decode_failure_is_fatal:
  assumes "loadImageData env imageUrl = Inr base"
      and "\<forall>layer \<in> set pre. decodable env layer"
      and "layer_type layer = Image"
      and "layer_extractedImage layer = Some b64"
      and "b64 \<noteq> []"
      and "loadImageDataFromBase64 env b64 = Inl e"
  shows "buildPsd env imageUrl (pre @ layer # post) = Inl e \<and>
         exportToPsd env writePsd imageUrl (pre @ layer # post) = Inl e"
proof -
  have g: "getContext2d env"
    using assms(1) by (auto simp: loadImageData_def split: option.splits if_splits)
  have c: "cachedExtraction layer = Some b64"
    using assms(3,4,5) by (rule cachedExtraction_Some)
  have "renderLayers env (img_width base) (img_height base)
          (OffscreenCanvas (img_width base) (img_height base)) [originalLayer base]
          (pre @ layer # post) = Inl e"
    using assms(2) c assms(6) by (rule renderLayers_fails)
  then show ?thesis
    using assms(1) g by (simp add: buildPsd_def exportToPsd_def Let_def)
qed

theorem extraction_decode_failure_counterexample:
  "decodable ex_browser ex_sky \<and> decodable ex_browser ex_logo \<and>
   cachedExtraction ex_broken = Some ''!!'' \<and>
   loadImageDataFromBase64 ex_browser ''!!'' = Inl DecodeError \<and>
   exportToPsd ex_browser ex_writePsd ''blob:base'' [ex_sky, ex_broken, ex_logo] = Inl DecodeError"
proof -
  have d1: "decodable ex_browser ex_sky"
    by (simp add: decodable_def cachedExtraction_def ex_sky_def)
  have d2: "decodable ex_browser ex_logo"
    by (simp add: decodable_def cachedExtraction_def ex_logo_def loadImageDataFromBase64_def
        loadImageData_def ex_browser_def)
  have c: "cachedExtraction ex_broken = Some ''!!''"
    by (simp add: cachedExtraction_def ex_broken_def ex_logo_def)
  have l: "loadImageDataFromBase64 ex_browser ''!!'' = Inl DecodeError"
    by (simp add: loadImageDataFromBase64_def loadImageData_def ex_browser_def)
  have p: "\<forall>layer \<in> set [ex_sky]. decodable ex_browser layer" using d1 by simp
  have g: "getContext2d ex_browser" by (simp add: ex_browser_def)
  have "renderLayers ex_browser (img_width ex_base) (img_height ex_base)
          (OffscreenCanvas (img_width ex_base) (img_height ex_base)) [originalLayer ex_base]
          ([ex_sky] @ ex_broken # [ex_logo]) = Inl DecodeError"
    using p c l by (rule renderLayers_fails)
  then have "renderLayers ex_browser (img_width ex_base) (img_height ex_base)
          (OffscreenCanvas (img_width ex_base) (img_height ex_base)) [originalLayer ex_base]
          [ex_sky, ex_broken, ex_logo] = Inl DecodeError"
    by (simp del: renderLayers.simps)
  then have "exportToPsd ex_browser ex_writePsd ''blob:base'' [ex_sky, ex_broken, ex_logo]
               = Inl DecodeError"
    by (simp add: exportToPsd_def buildPsd_def Let_def ex_load g del: renderLayers.simps)
  with d1 d2 c l show ?thesis by simp
qed

theorem extraction_decode_failure_is_fatal_witness:
  "loadImageData ex_browser ''blob:base'' = Inr ex_base \<and>
   decodable ex_browser ex_sky \<and>
   layer_type ex_broken = Image \<and> layer_extractedImage ex_broken = Some ''!!'' \<and>
   loadImageDataFromBase64 ex_browser ''!!'' = Inl DecodeError \<and>
   buildPsd ex_browser ''blob:base'' ([ex_sky] @ ex_broken # [ex_logo]) = Inl DecodeError \<and>
   exportToPsd ex_browser ex_writePsd ''blob:base'' ([ex_sky] @ ex_broken # [ex_logo]) = Inl DecodeError"
proof -
  have h1: "loadImageData ex_browser ''blob:base'' = Inr ex_base"
    by (simp add: loadImageData_def ex_browser_def)
  have d: "decodable ex_browser ex_sky"
    by (simp add: decodable_def cachedExtraction_def ex_sky_def)
  then have h2: "\<forall>layer \<in> set [ex_sky]. decodable ex_browser layer" by simp
  have h3: "layer_type ex_broken = Image" by (simp add: ex_broken_def ex_logo_def)
  have h4: "layer_extractedImage ex_broken = Some ''!!''" by (simp add: ex_broken_def)
  have h5: "''!!'' \<noteq> []" by simp
  have h6: "loadImageDataFromBase64 ex_browser ''!!'' = Inl DecodeError"
    by (simp add: loadImageDataFromBase64_def loadImageData_def ex_browser_def)
  show ?thesis
    using h1 d h3 h4 h6
      extraction_decode_failure_is_fatal[OF h1 h2 h3 h4 h5 h6, of "[ex_logo]" ex_writePsd]
    by simp
qed

text \<open>
  Claim C8, as the code has it. On a canvas of positive width and height (below
  \<open>2 ^ 32\<close>, as the dimensions of a bitmap are), scaling a normalized coordinate in
  \<open>[0, 1]\<close> to pixels as the assembler does (the double product with the canvas
  dimension, rounded to the nearest integer) and dividing the pixel value by the same
  dimension, as real numbers, gives back the coordinate up to half a pixel plus the
  rounding of the product: \<open>1 / (2 * dimension) + 1 / 2 ^ 52\<close>. This holds for the four values of the
  guide rectangle and for the offset of an extracted layer. Half a pixel alone is not a
  bound: for the double nearest 0.3 on 5 pixels the code computes 2, and for the double
  nearest 1/6 on 3 pixels it computes 1, each more than half a pixel away.
\<close>

theorem absolute_coordinates_roundtrip:
  assumes "0 \<le> x" "x \<le> 1" "0 \<le> y" "y \<le> 1" "0 \<le> w" "w \<le> 1" "0 \<le> h" "h \<le> 1"
      and "0 < width" "width < 2 ^ 32" "0 < height" "height < 2 ^ 32"
  shows "\<exists>px py pw ph.
           guideRect \<lparr>bb_x = Num x, bb_y = Num y, bb_width = Num w, bb_height = Num h\<rparr> width height =
             \<lparr>rect_x = Num (real_of_int px), rect_y = Num (real_of_int py),
              rect_w = Num (real_of_int pw), rect_h = Num (real_of_int ph)\<rparr> \<and>
           psd_left (extractedLayer
                      (layer\<lparr>layer_boundingBox :=
                                \<lparr>bb_x = Num x, bb_y = Num y, bb_width = Num w, bb_height = Num h\<rparr>\<rparr>)
                      extracted width height) = Num (real_of_int px) \<and>
           psd_top (extractedLayer
                      (layer\<lparr>layer_boundingBox :=
                                \<lparr>bb_x = Num x, bb_y = Num y, bb_width = Num w, bb_height = Num h\<rparr>\<rparr>)
                      extracted width height) = Num (real_of_int py) \<and>
           \<bar>real_of_int px / real width - x\<bar> \<le> 1 / (2 * real width) + 1 / 2 ^ 52 \<and>
           \<bar>real_of_int py / real height - y\<bar> \<le> 1 / (2 * real height) + 1 / 2 ^ 52 \<and>
           \<bar>real_of_int pw / real width - w\<bar> \<le> 1 / (2 * real width) + 1 / 2 ^ 52 \<and>
           \<bar>real_of_int ph / real height - h\<bar> \<le> 1 / (2 * real height) + 1 / 2 ^ 52"
proof -
  from scaled_round_error[OF assms(1,2,9,10)] obtain px where
    px: "Math_round (jsTimes (Num x) width) = Num (real_of_int px)"
        "\<bar>real_of_int px / real width - x\<bar> \<le> 1 / (2 * real width) + 1 / 2 ^ 52"
    by blast
  from scaled_round_error[OF assms(3,4,11,12)] obtain py where
    py: "Math_round (jsTimes (Num y) height) = Num (real_of_int py)"
        "\<bar>real_of_int py / real height - y\<bar> \<le> 1 / (2 * real height) + 1 / 2 ^ 52"
    by blast
  from scaled_round_error[OF assms(5,6,9,10)] obtain pw where
    pw: "Math_round (jsTimes (Num w) width) = Num (real_of_int pw)"
        "\<bar>real_of_int pw / real width - w\<bar> \<le> 1 / (2 * real width) + 1 / 2 ^ 52"
    by blast
  from scaled_round_error[OF assms(7,8,11,12)] obtain ph where
    ph: "Math_round (jsTimes (Num h) height) = Num (real_of_int ph)"
        "\<bar>real_of_int ph / real height - h\<bar> \<le> 1 / (2 * real height) + 1 / 2 ^ 52"
    by blast
  have g: "guideRect \<lparr>bb_x = Num x, bb_y = Num y, bb_width = Num w, bb_height = Num h\<rparr> width height =
             \<lparr>rect_x = Num (real_of_int px), rect_y = Num (real_of_int py),
              rect_w = Num (real_of_int pw), rect_h = Num (real_of_int ph)\<rparr>"
    unfolding guideRect_def using px(1) py(1) pw(1) ph(1) by (simp del: jsTimes.simps Math_round.simps)
  have e: "psd_left (extractedLayer
                      (layer\<lparr>layer_boundingBox :=
                                \<lparr>bb_x = Num x, bb_y = Num y, bb_width = Num w, bb_height = Num h\<rparr>\<rparr>)
                      extracted width height) = Num (real_of_int px)"
          "psd_top (extractedLayer
                      (layer\<lparr>layer_boundingBox :=
                                \<lparr>bb_x = Num x, bb_y = Num y, bb_width = Num w, bb_height = Num h\<rparr>\<rparr>)
                      extracted width height) = Num (real_of_int py)"
    unfolding extractedLayer_def Let_def using px(1) py(1)
    by (simp_all del: jsTimes.simps Math_round.simps jsPlus.simps)
  from g e px(2) py(2) pw(2) ph(2) show ?thesis by blast
qed

theorem absolute_coordinates_roundtrip_counterexample:
  "bb_x ex_third = Num (5404319552844595 / 2 ^ 54) \<and>
   (0::real) \<le> 5404319552844595 / 2 ^ 54 \<and> (5404319552844595::real) / 2 ^ 54 \<le> 1 \<and>
   rect_x (guideRect ex_third 5 3) = Num 2 \<and>
   1 / (2 * real 5) < \<bar>2 / real 5 - 5404319552844595 / 2 ^ 54\<bar> \<and>
   bb_y ex_third = Num (6004799503160661 / 2 ^ 55) \<and>
   (0::real) \<le> 6004799503160661 / 2 ^ 55 \<and> (6004799503160661::real) / 2 ^ 55 \<le> 1 \<and>
   rect_y (guideRect ex_third 5 3) = Num 1 \<and>
   1 / (2 * real 3) < \<bar>1 / real 3 - 6004799503160661 / 2 ^ 55\<bar>"
proof -
  have "rect_x (guideRect ex_third 5 3) = Num 2" "rect_y (guideRect ex_third 5 3) = Num 1"
    by (simp_all add: guideRect_def ex_third_x ex_third_y del: jsTimes.simps)
  then show ?thesis by (simp add: ex_third_def)
qed

theorem absolute_coordinates_roundtrip_witness:
  "(0::real) \<le> 5404319552844595 / 2 ^ 54 \<and> (5404319552844595::real) / 2 ^ 54 \<le> 1 \<and>
   (0::real) \<le> 6004799503160661 / 2 ^ 55 \<and> (6004799503160661::real) / 2 ^ 55 \<le> 1 \<and>
   (0::nat) < 5 \<and> (5::nat) < 2 ^ 32 \<and> (0::nat) < 3 \<and> (3::nat) < 2 ^ 32 \<and>
   rect_x (guideRect ex_third 5 3) = Num 2 \<and>
   \<bar>2 / real 5 - 5404319552844595 / 2 ^ 54\<bar> \<le> 1 / (2 * real 5) + 1 / 2 ^ 52 \<and>
   (\<exists>px py pw ph.
      guideRect ex_third 5 3 =
        \<lparr>rect_x = Num (real_of_int px), rect_y = Num (real_of_int py),
         rect_w = Num (real_of_int pw), rect_h = Num (real_of_int ph)\<rparr> \<and>
      \<bar>real_of_int px / real 5 - 5404319552844595 / 2 ^ 54\<bar> \<le> 1 / (2 * real 5) + 1 / 2 ^ 52 \<and>
      \<bar>real_of_int py / real 3 - 6004799503160661 / 2 ^ 55\<bar> \<le> 1 / (2 * real 3) + 1 / 2 ^ 52)"
proof -
  have a: "(0::real) \<le> 5404319552844595 / 2 ^ 54" "(5404319552844595::real) / 2 ^ 54 \<le> 1"
          "(0::real) \<le> 6004799503160661 / 2 ^ 55" "(6004799503160661::real) / 2 ^ 55 \<le> 1"
          "(0::real) \<le> 1 / 2" "(1::real) / 2 \<le> 1"
    by simp_all
  have d: "(0::nat) < 5" "(5::nat) < 2 ^ 32" "(0::nat) < 3" "(3::nat) < 2 ^ 32" by simp_all
  have rx: "rect_x (guideRect ex_third 5 3) = Num 2"
    by (simp add: guideRect_def ex_third_x del: jsTimes.simps)
  have b: "\<bar>2 / real 5 - 5404319552844595 / 2 ^ 54\<bar> \<le> 1 / (2 * real 5) + 1 / 2 ^ 52" by simp
  from absolute_coordinates_roundtrip[OF a(1,2) a(3,4) a(5,6) a(5,6) d]
  have "\<exists>px py pw ph.
      guideRect ex_third 5 3 =
        \<lparr>rect_x = Num (real_of_int px), rect_y = Num (real_of_int py),
         rect_w = Num (real_of_int pw), rect_h = Num (real_of_int ph)\<rparr> \<and>
      \<bar>real_of_int px / real 5 - 5404319552844595 / 2 ^ 54\<bar> \<le> 1 / (2 * real 5) + 1 / 2 ^ 52 \<and>
      \<bar>real_of_int py / real 3 - 6004799503160661 / 2 ^ 55\<bar> \<le> 1 / (2 * real 3) + 1 / 2 ^ 52"
    unfolding ex_third_def by blast
  with a d rx b show ?thesis by blast
qed

text \<open>
  Claim C10. For the empty layer array, as soon as the source image decodes,
  \<open>exportToPsd\<close> succeeds and serializes a document with exactly one layer: the
  original image at offset (0, 0), spanning the canvas, with no opacity field and hence
  at full opacity. The count is again one more than the number of input layers.
\<close>

theorem exportToPsd_empty_layers:
  assumes "loadImageData env imageUrl = Inr base"
  shows "buildPsd env imageUrl [] =
           Inr \<lparr>doc_width = img_width base, doc_height = img_height base,
                doc_children =
                  [\<lparr>psd_name = ''Original Image'', psd_imageData = img_data base,
                    psd_left = Num 0, psd_top = Num 0,
                    psd_right = Num (real (img_width base)),
                    psd_bottom = Num (real (img_height base)),
                    psd_opacity = None\<rparr>]\<rparr> \<and>
         exportToPsd env writePsd imageUrl [] =
           Inr (writePsd \<lparr>doc_width = img_width base, doc_height = img_height base,
                doc_children = [originalLayer base]\<rparr>) \<and>
         effectiveOpacity (originalLayer base) = 1 \<and>
         length [originalLayer base] = 1 + length ([] :: Layer list)"
proof -
  have g: "getContext2d env"
    using assms by (auto simp: loadImageData_def split: option.splits if_splits)
  show ?thesis
    using assms g
    by (simp add: buildPsd_def exportToPsd_def Let_def originalLayer_def effectiveOpacity_def)
qed

theorem exportToPsd_empty_layers_witness:
  "loadImageData ex_browser ''blob:base'' = Inr ex_base \<and>
   buildPsd ex_browser ''blob:base'' [] =
     Inr \<lparr>doc_width = 2, doc_height = 2,
          doc_children =
            [\<lparr>psd_name = ''Original Image'', psd_imageData = replicate 4 (10, 20, 30, 255),
              psd_left = Num 0, psd_top = Num 0, psd_right = Num 2, psd_bottom = Num 2,
              psd_opacity = None\<rparr>]\<rparr>"
proof -
  have h: "loadImageData ex_browser ''blob:base'' = Inr ex_base"
    by (simp add: loadImageData_def ex_browser_def)
  show ?thesis
    using h exportToPsd_empty_layers[OF h, of ex_writePsd] by (simp add: ex_base_def)
qed

section \<open>Properties of the model clients\<close>

lemma invalidItem_False:
  "invalidItem item = Inr False \<longleftrightarrow> (\<forall>key \<in> set requiredFields. hasTruthy item key)"
  by (cases item)
     (auto simp: invalidItem_def hasTruthy_def requiredFields_def split: sum.splits)

lemma someInvalid_False:
  "someInvalid items = Inr False \<longleftrightarrow> (\<forall>item \<in> set items. invalidItem item = Inr False)"
  by (induction items) (auto split: sum.splits bool.splits)

lemma analyzeTry_Inr:
  assumes "resp_text response = Some jsonText" "jsonText \<noteq> []"
      and "JSON_parse rt jsonText = Some parsed"
  shows "analyzeTry rt (Inr response) = Inr items \<longleftrightarrow>
         parsed = JArr items \<and>
         (\<forall>item \<in> set items. \<forall>key \<in> set requiredFields. hasTruthy item key)"
proof (cases parsed)
  case (JArr xs)
  have "analyzeTry rt (Inr response) = Inr items \<longleftrightarrow> xs = items \<and> someInvalid xs = Inr False"
    using assms JArr by (auto simp: analyzeTry_def split: sum.splits bool.splits)
  then show ?thesis
    using JArr by (auto simp: someInvalid_False invalidItem_False)
qed (use assms in \<open>simp_all add: analyzeTry_def\<close>)

lemma analyze_result:
  "fst (analyzeImageForLayers rt base64Image mimeType w) =
     (case analyzeTry rt (generateContent rt (analyzeRequest base64Image mimeType)) of
        Inr layers \<Rightarrow> Inr layers
      | Inl e \<Rightarrow> Inl (Error ''Failed to communicate with the AI model.''))"
  by (simp add: analyzeImageForLayers_def Let_def split: sum.splits)

lemma analyze_remote_failure:
  assumes "generateContent rt (analyzeRequest base64Image mimeType) = Inl e"
  shows "fst (analyzeImageForLayers rt base64Image mimeType w) =
           Inl (Error ''Failed to communicate with the AI model.'')"
  using assms by (simp add: analyze_result analyzeTry_def)

lemma firstInlineData_append:
  assumes "\<forall>p \<in> set pre. part_inlineData p = None" "part_inlineData part = Some blob"
  shows "firstInlineData (pre @ part # post) = Some blob"
  using assms by (induction pre) simp_all

lemma firstInlineData_None:
  "(\<forall>p \<in> set parts. part_inlineData p = None) \<Longrightarrow> firstInlineData parts = None"
  by (induction parts) simp_all

lemma extract_result:
  "fst (extractImageLayer rt base64Image mimeType layer w) =
     (case extractTry (generateContent rt (extractRequest base64Image mimeType layer)) of
        Inr payload \<Rightarrow> Inr payload
      | Inl e \<Rightarrow> Inl (Error ''Failed to extract image layer with the AI model.''))"
  by (simp add: extractImageLayer_def Let_def split: sum.splits)

lemma analyze_world:
  "sent (snd (analyzeImageForLayers rt base64Image mimeType w)) =
     sent w @ [analyzeRequest base64Image mimeType]"
  "console (snd (analyzeImageForLayers rt base64Image mimeType w)) =
     (case analyzeTry rt (generateContent rt (analyzeRequest base64Image mimeType)) of
        Inr layers \<Rightarrow> console w
      | Inl e \<Rightarrow> console w @ [(''Error calling Gemini API:'', e)])"
  by (simp_all add: analyzeImageForLayers_def Let_def split: sum.splits)

lemma analyzeTry_total:
  "analyzeTry rt answer =
     (case answer of
        Inl e \<Rightarrow> Inl e
      | Inr response \<Rightarrow>
          (case resp_text response of
             None \<Rightarrow> Inl (Error ''API returned an empty response.'')
           | Some jsonText \<Rightarrow>
               if jsonText = [] then Inl (Error ''API returned an empty response.'')
               else (case JSON_parse rt jsonText of
                       None \<Rightarrow> Inl SyntaxError
                     | Some parsed \<Rightarrow>
                         (case parsed of
                            JArr xs \<Rightarrow>
                              if (\<forall>x \<in> set xs. \<forall>key \<in> set requiredFields. hasTruthy x key)
                              then Inr xs
                              else (case someInvalid xs of
                                      Inl e \<Rightarrow> Inl e
                                    | Inr b \<Rightarrow> Inl (Error ''Invalid JSON structure received from API.''))
                          | _ \<Rightarrow> Inl (Error ''Invalid JSON structure received from API.'')))))"
proof (cases answer)
  case (Inl e)
  then show ?thesis by (simp add: analyzeTry_def)
next
  case (Inr response)
  show ?thesis
  proof (cases "resp_text response")
    case None
    with Inr show ?thesis by (simp add: analyzeTry_def)
  next
    case (Some jsonText)
    show ?thesis
    proof (cases "jsonText = []")
      case True
      with Inr Some show ?thesis by (simp add: analyzeTry_def)
    next
      case False
      show ?thesis
      proof (cases "JSON_parse rt jsonText")
        case None
        with Inr Some False show ?thesis by (simp add: analyzeTry_def)
      next
        case p: (Some parsed)
        show ?thesis
        proof (cases parsed)
          case (JArr xs)
          have "someInvalid xs = Inr False \<longleftrightarrow>
                (\<forall>x \<in> set xs. \<forall>key \<in> set requiredFields. hasTruthy x key)"
            by (simp add: someInvalid_False invalidItem_False)
          then show ?thesis
            using Inr Some False p JArr
            by (auto simp: analyzeTry_def split: sum.splits bool.splits)
        qed (use Inr Some False p in \<open>simp_all add: analyzeTry_def\<close>)
      qed
    qed
  qed
qed

lemma extractTry_candidateParts:
  "extractTry (Inr response) = Inr payload \<longleftrightarrow>
     (\<exists>blob. firstInlineData (candidateParts response) = Some blob \<and> payload = blob_data blob)"
  by (auto simp: extractTry_def candidateParts_def split: option.splits list.splits)

lemma extract_world:
  "console (snd (snd (extractImageLayer rt base64Image mimeType layer w))) =
     (case extractTry (generateContent rt (extractRequest base64Image mimeType layer)) of
        Inr payload \<Rightarrow> console w
      | Inl e \<Rightarrow> console w @ [(''Error calling Gemini API for image extraction:'', e)])"
  by (simp add: extractImageLayer_def Let_def split: sum.splits)

text \<open>
  Claim C4, as the code has it. \<open>analyzeImageForLayers\<close> returns a layer list only
  when the model answers with a non-empty text that parses to an array whose elements
  all have truthy \<^verbatim>\<open>name\<close>, \<^verbatim>\<open>description\<close>, \<^verbatim>\<open>type\<close> and
  \<^verbatim>\<open>boundingBox\<close>, and then it returns that array as it is. In every other case
  (the call fails, the text is missing or empty, the text does not parse, the value is
  not an array, an element lacks one of the four keys or holds a falsy value there) the
  whole call fails and returns no list. The error is one and the same
  \<^verbatim>\<open>Error\<close> in all these cases, the one raised when the model cannot be
  reached: the \<^verbatim>\<open>catch\<close> block replaces every cause, which reaches the console
  only.
\<close>

theorem analyze_rejects_whole_response:
  "fst (analyzeImageForLayers rt base64Image mimeType w) =
     (case generateContent rt (analyzeRequest base64Image mimeType) of
        Inl e \<Rightarrow> Inl (Error ''Failed to communicate with the AI model.'')
      | Inr response \<Rightarrow>
          (case resp_text response of
             None \<Rightarrow> Inl (Error ''Failed to communicate with the AI model.'')
           | Some jsonText \<Rightarrow>
               if jsonText = [] then Inl (Error ''Failed to communicate with the AI model.'')
               else (case JSON_parse rt jsonText of
                       None \<Rightarrow> Inl (Error ''Failed to communicate with the AI model.'')
                     | Some parsed \<Rightarrow>
                         (case parsed of
                            JArr xs \<Rightarrow>
                              if (\<forall>x \<in> set xs. \<forall>key \<in> set requiredFields. hasTruthy x key)
                              then Inr xs
                              else Inl (Error ''Failed to communicate with the AI model.'')
                          | _ \<Rightarrow> Inl (Error ''Failed to communicate with the AI model.''))))) \<and>
   (generateContent rt (analyzeRequest base64Image mimeType) = Inr response \<and>
    resp_text response = Some jsonText \<and> jsonText \<noteq> [] \<and>
    JSON_parse rt jsonText = Some (JArr ys) \<and> y \<in> set ys \<and> key \<in> set requiredFields \<and>
    getProp y key = Inr None \<longrightarrow>
      fst (analyzeImageForLayers rt base64Image mimeType w) =
        Inl (Error ''Failed to communicate with the AI model.'')) \<and>
   (generateContent rt (analyzeRequest base64Image mimeType) = Inl e \<longrightarrow>
      console (snd (analyzeImageForLayers rt base64Image mimeType w)) =
        console w @ [(''Error calling Gemini API:'', e)]) \<and>
   ((\<exists>layers. fst (analyzeImageForLayers rt base64Image mimeType w) = Inr layers \<and>
        console (snd (analyzeImageForLayers rt base64Image mimeType w)) = console w) \<or>
    (fst (analyzeImageForLayers rt base64Image mimeType w) =
       Inl (Error ''Failed to communicate with the AI model.'') \<and>
     (\<exists>cause. console (snd (analyzeImageForLayers rt base64Image mimeType w)) =
        console w @ [(''Error calling Gemini API:'', cause)])))"
proof -
  let ?r = "analyzeImageForLayers rt base64Image mimeType w"
  let ?t = "analyzeTry rt (generateContent rt (analyzeRequest base64Image mimeType))"
  let ?fail = "Inl (Error ''Failed to communicate with the AI model.'') :: error + json list"
  have a: "fst ?r =
     (case generateContent rt (analyzeRequest base64Image mimeType) of
        Inl e \<Rightarrow> ?fail
      | Inr response \<Rightarrow>
          (case resp_text response of
             None \<Rightarrow> ?fail
           | Some jsonText \<Rightarrow>
               if jsonText = [] then ?fail
               else (case JSON_parse rt jsonText of
                       None \<Rightarrow> ?fail
                     | Some parsed \<Rightarrow>
                         (case parsed of
                            JArr xs \<Rightarrow>
                              if (\<forall>x \<in> set xs. \<forall>key \<in> set requiredFields. hasTruthy x key)
                              then Inr xs
                              else ?fail
                          | _ \<Rightarrow> ?fail))))"
    unfolding analyze_result analyzeTry_total[of rt]
    by (simp split: sum.splits option.splits json.splits)
  have b: "generateContent rt (analyzeRequest base64Image mimeType) = Inr response \<and>
    resp_text response = Some jsonText \<and> jsonText \<noteq> [] \<and>
    JSON_parse rt jsonText = Some (JArr ys) \<and> y \<in> set ys \<and> key \<in> set requiredFields \<and>
    getProp y key = Inr None \<longrightarrow> fst ?r = ?fail"
  proof (intro impI)
    assume h: "generateContent rt (analyzeRequest base64Image mimeType) = Inr response \<and>
      resp_text response = Some jsonText \<and> jsonText \<noteq> [] \<and>
      JSON_parse rt jsonText = Some (JArr ys) \<and> y \<in> set ys \<and> key \<in> set requiredFields \<and>
      getProp y key = Inr None"
    then have "\<not> hasTruthy y key" by (simp add: hasTruthy_def)
    with h have "\<not> (\<forall>x \<in> set ys. \<forall>key \<in> set requiredFields. hasTruthy x key)" by blast
    with h show "fst ?r = ?fail" unfolding a by simp
  qed
  have c: "generateContent rt (analyzeRequest base64Image mimeType) = Inl e \<longrightarrow>
      console (snd ?r) = console w @ [(''Error calling Gemini API:'', e)]"
    by (simp add: analyze_world analyzeTry_def)
  have d: "(\<exists>layers. fst ?r = Inr layers \<and> console (snd ?r) = console w) \<or>
    (fst ?r = ?fail \<and>
     (\<exists>cause. console (snd ?r) = console w @ [(''Error calling Gemini API:'', cause)]))"
    by (cases ?t) (simp_all add: analyze_result analyze_world)
  from a b c d show ?thesis by blast
qed

theorem analyze_rejects_whole_response_counterexample:
  "fst (analyzeImageForLayers ex_missing ''AAAA'' ''image/png'' ex_world) =
     Inl (Error ''Failed to communicate with the AI model.'') \<and>
   fst (analyzeImageForLayers ex_down ''AAAA'' ''image/png'' ex_world) =
     Inl (Error ''Failed to communicate with the AI model.'') \<and>
   console (snd (analyzeImageForLayers ex_missing ''AAAA'' ''image/png'' ex_world)) =
     [(''Error calling Gemini API:'', Error ''Invalid JSON structure received from API.'')] \<and>
   console (snd (analyzeImageForLayers ex_down ''AAAA'' ''image/png'' ex_world)) =
     [(''Error calling Gemini API:'', RemoteError)] \<and>
   fst (analyzeImageForLayers ex_lenient ''AAAA'' ''image/png'' ex_world) =
     Inr [JObj [(''name'', JStr ''Sky''), (''description'', JStr ''A blue band.''),
                (''type'', JStr ''hologram''), (''boundingBox'', JObj [])]]"
  by (simp add: analyzeImageForLayers_def analyzeTry_def analyzeRequest_def Let_def
      ex_missing_def ex_down_def ex_lenient_def ex_runtime_def ex_textResponse_def ex_world_def
      ex_item_def ex_item_no_type_def invalidItem_def)

theorem analyze_rejects_whole_response_witness:
  "generateContent ex_missing (analyzeRequest ''AAAA'' ''image/png'')
     = Inr (ex_textResponse ''[{name: Ground, ...}, {name: Sky, boundingBox: {...}}]'') \<and>
   JSON_parse ex_missing ''[{name: Ground, ...}, {name: Sky, boundingBox: {...}}]''
     = Some (JArr [ex_item ''Ground'' ''shape'', ex_item_no_type]) \<and>
   getProp ex_item_no_type ''type'' = Inr None \<and>
   fst (analyzeImageForLayers ex_missing ''AAAA'' ''image/png'' ex_world) =
     Inl (Error ''Failed to communicate with the AI model.'') \<and>
   generateContent ex_silent (analyzeRequest ''AAAA'' ''image/png'')
     = Inr \<lparr>resp_text = None, resp_candidates = None\<rparr> \<and>
   fst (analyzeImageForLayers ex_silent ''AAAA'' ''image/png'' ex_world) =
     Inl (Error ''Failed to communicate with the AI model.'') \<and>
   generateContent ex_garbled (analyzeRequest ''AAAA'' ''image/png'')
     = Inr (ex_textResponse ''[{name: Sky'') \<and>
   JSON_parse ex_garbled ''[{name: Sky'' = None \<and>
   fst (analyzeImageForLayers ex_garbled ''AAAA'' ''image/png'' ex_world) =
     Inl (Error ''Failed to communicate with the AI model.'') \<and>
   generateContent ex_down (analyzeRequest ''AAAA'' ''image/png'') = Inl RemoteError \<and>
   fst (analyzeImageForLayers ex_down ''AAAA'' ''image/png'' ex_world) =
     Inl (Error ''Failed to communicate with the AI model.'') \<and>
   console (snd (analyzeImageForLayers ex_down ''AAAA'' ''image/png'' ex_world)) =
     console ex_world @ [(''Error calling Gemini API:'', RemoteError)]"
proof -
  let ?txt = "''[{name: Ground, ...}, {name: Sky, boundingBox: {...}}]''"
  have h1: "generateContent ex_missing (analyzeRequest ''AAAA'' ''image/png'')
     = Inr (ex_textResponse ?txt)"
    by (simp add: ex_missing_def ex_runtime_def)
  have h2: "resp_text (ex_textResponse ?txt) = Some ?txt"
    by (simp add: ex_textResponse_def)
  have h3: "?txt \<noteq> []" by simp
  have h4: "JSON_parse ex_missing ?txt = Some (JArr [ex_item ''Ground'' ''shape'', ex_item_no_type])"
    by (simp add: ex_missing_def ex_runtime_def)
  have g: "getProp ex_item_no_type ''type'' = Inr None"
    by (simp add: ex_item_no_type_def)
  have m: "ex_item_no_type \<in> set [ex_item ''Ground'' ''shape'', ex_item_no_type]"
          "''type'' \<in> set requiredFields"
    by (simp_all add: requiredFields_def)
  have r1: "fst (analyzeImageForLayers ex_missing ''AAAA'' ''image/png'' ex_world) =
     Inl (Error ''Failed to communicate with the AI model.'')"
    using analyze_rejects_whole_response[of ex_missing "''AAAA''" "''image/png''" ex_world
        "ex_textResponse ?txt" ?txt "[ex_item ''Ground'' ''shape'', ex_item_no_type]"
        ex_item_no_type "''type''"]
      h1 h2 h3 h4 g m
    by blast
  have s1: "generateContent ex_silent (analyzeRequest ''AAAA'' ''image/png'')
     = Inr \<lparr>resp_text = None, resp_candidates = None\<rparr>"
    by (simp add: ex_silent_def ex_runtime_def)
  have r2: "fst (analyzeImageForLayers ex_silent ''AAAA'' ''image/png'' ex_world) =
     Inl (Error ''Failed to communicate with the AI model.'')"
    using analyze_rejects_whole_response[of ex_silent "''AAAA''" "''image/png''" ex_world]
    by (simp add: s1)
  have t1: "generateContent ex_garbled (analyzeRequest ''AAAA'' ''image/png'')
     = Inr (ex_textResponse ''[{name: Sky'')"
    by (simp add: ex_garbled_def ex_runtime_def)
  have t2: "JSON_parse ex_garbled ''[{name: Sky'' = None"
    by (simp add: ex_garbled_def ex_runtime_def)
  have r3: "fst (analyzeImageForLayers ex_garbled ''AAAA'' ''image/png'' ex_world) =
     Inl (Error ''Failed to communicate with the AI model.'')"
    using analyze_rejects_whole_response[of ex_garbled "''AAAA''" "''image/png''" ex_world]
    by (simp add: t1 t2 ex_textResponse_def)
  have d1: "generateContent ex_down (analyzeRequest ''AAAA'' ''image/png'') = Inl RemoteError"
    by (simp add: ex_down_def ex_runtime_def)
  have r4: "fst (analyzeImageForLayers ex_down ''AAAA'' ''image/png'' ex_world) =
     Inl (Error ''Failed to communicate with the AI model.'')"
    using analyze_rejects_whole_response[of ex_down "''AAAA''" "''image/png''" ex_world]
    by (simp add: d1)
  have r5: "console (snd (analyzeImageForLayers ex_down ''AAAA'' ''image/png'' ex_world)) =
     console ex_world @ [(''Error calling Gemini API:'', RemoteError)]"
    using analyze_rejects_whole_response[of ex_down "''AAAA''" "''image/png''" ex_world
        _ _ _ _ _ RemoteError] d1
    by blast
  from h1 h4 g r1 s1 r2 t1 t2 r3 d1 r4 r5 show ?thesis by blast
qed

text \<open>
  Claim C6, as the code has it. When the first part of the first candidate that carries
  inline data holds a non-empty string, \<open>extractImageLayer\<close> returns that string.
  When the call fails, or the response has no candidate parts, or no part carries inline
  data, it fails and returns nothing; the error is one and the same \<^verbatim>\<open>Error\<close>
  in these cases, because the \<^verbatim>\<open>catch\<close> block replaces every cause and only logs
  it.
\<close>

theorem extract_first_inline_data_or_fail:
  "(generateContent rt (extractRequest base64Image mimeType layer) = Inl e \<longrightarrow>
      fst (extractImageLayer rt base64Image mimeType layer w) =
        Inl (Error ''Failed to extract image layer with the AI model.'')) \<and>
   (generateContent rt (extractRequest base64Image mimeType layer) = Inr response \<and>
    (\<forall>p \<in> set (candidateParts response). part_inlineData p = None) \<longrightarrow>
      fst (extractImageLayer rt base64Image mimeType layer w) =
        Inl (Error ''Failed to extract image layer with the AI model.'')) \<and>
   (generateContent rt (extractRequest base64Image mimeType layer) = Inr response \<and>
    candidateParts response = pre @ part # post \<and>
    (\<forall>p \<in> set pre. part_inlineData p = None) \<and>
    part_inlineData part = Some blob \<and> blob_data blob = Some d \<and> d \<noteq> [] \<longrightarrow>
      fst (extractImageLayer rt base64Image mimeType layer w) = Inr (Some d)) \<and>
   (fst (extractImageLayer rt base64Image mimeType layer w) =
      Inl (Error ''Failed to extract image layer with the AI model.'') \<longrightarrow>
      (\<exists>cause. console (snd (snd (extractImageLayer rt base64Image mimeType layer w))) =
         console w @ [(''Error calling Gemini API for image extraction:'', cause)]))"
proof -
  let ?r = "extractImageLayer rt base64Image mimeType layer w"
  let ?g = "generateContent rt (extractRequest base64Image mimeType layer)"
  let ?fail = "Inl (Error ''Failed to extract image layer with the AI model.'') :: error + string option"
  have a: "?g = Inl e \<longrightarrow> fst ?r = ?fail"
    by (simp add: extract_result extractTry_def)
  have b: "?g = Inr response \<and> (\<forall>p \<in> set (candidateParts response). part_inlineData p = None)
             \<longrightarrow> fst ?r = ?fail"
  proof (intro impI)
    assume h: "?g = Inr response \<and> (\<forall>p \<in> set (candidateParts response). part_inlineData p = None)"
    then have "firstInlineData (candidateParts response) = None"
      by (simp add: firstInlineData_None)
    then have "\<And>payload. extractTry (Inr response) \<noteq> Inr payload"
      by (simp add: extractTry_candidateParts)
    then show "fst ?r = ?fail"
      using h by (cases "extractTry (Inr response)") (auto simp: extract_result)
  qed
  have c: "?g = Inr response \<and> candidateParts response = pre @ part # post \<and>
    (\<forall>p \<in> set pre. part_inlineData p = None) \<and>
    part_inlineData part = Some blob \<and> blob_data blob = Some d \<and> d \<noteq> [] \<longrightarrow>
      fst ?r = Inr (Some d)"
  proof (intro impI)
    assume h: "?g = Inr response \<and> candidateParts response = pre @ part # post \<and>
      (\<forall>p \<in> set pre. part_inlineData p = None) \<and>
      part_inlineData part = Some blob \<and> blob_data blob = Some d \<and> d \<noteq> []"
    then have "firstInlineData (candidateParts response) = Some blob"
      by (simp add: firstInlineData_append)
    then have "extractTry (Inr response) = Inr (Some d)"
      using h by (simp add: extractTry_candidateParts)
    then show "fst ?r = Inr (Some d)" using h by (simp add: extract_result)
  qed
  have d: "fst ?r = ?fail \<longrightarrow>
      (\<exists>cause. console (snd (snd ?r)) =
         console w @ [(''Error calling Gemini API for image extraction:'', cause)])"
    by (cases "extractTry ?g") (simp_all add: extract_result extract_world)
  from a b c d show ?thesis by blast
qed

theorem extract_first_inline_data_or_fail_counterexample:
  "fst (extractImageLayer ex_textOnlyModel ''AAAA'' ''image/png'' ex_logo ex_world) =
     Inl (Error ''Failed to extract image layer with the AI model.'') \<and>
   fst (extractImageLayer ex_down ''AAAA'' ''image/png'' ex_logo ex_world) =
     Inl (Error ''Failed to extract image layer with the AI model.'') \<and>
   console (snd (snd (extractImageLayer ex_textOnlyModel ''AAAA'' ''image/png'' ex_logo ex_world))) =
     [(''Error calling Gemini API for image extraction:'',
       Error ''No image data found in AI response for extraction.'')] \<and>
   console (snd (snd (extractImageLayer ex_down ''AAAA'' ''image/png'' ex_logo ex_world))) =
     [(''Error calling Gemini API for image extraction:'', RemoteError)]"
  by (simp add: extractImageLayer_def extractTry_def Let_def ex_textOnlyModel_def ex_down_def
      ex_runtime_def ex_partsResponse_def ex_textPart_def ex_world_def)

theorem extract_first_inline_data_or_fail_witness:
  "generateContent ex_cutoutModel (extractRequest ''AAAA'' ''image/png'' ex_logo) =
     Inr (ex_partsResponse [ex_textPart, ex_imagePart ''QUJD'', ex_imagePart ''WFla'']) \<and>
   candidateParts (ex_partsResponse [ex_textPart, ex_imagePart ''QUJD'', ex_imagePart ''WFla'']) =
     [ex_textPart] @ ex_imagePart ''QUJD'' # [ex_imagePart ''WFla''] \<and>
   part_inlineData ex_textPart = None \<and>
   fst (extractImageLayer ex_cutoutModel ''AAAA'' ''image/png'' ex_logo ex_world) = Inr (Some ''QUJD'') \<and>
   generateContent ex_textOnlyModel (extractRequest ''AAAA'' ''image/png'' ex_logo) =
     Inr (ex_partsResponse [ex_textPart, ex_textPart]) \<and>
   fst (extractImageLayer ex_textOnlyModel ''AAAA'' ''image/png'' ex_logo ex_world) =
     Inl (Error ''Failed to extract image layer with the AI model.'') \<and>
   generateContent ex_silent (extractRequest ''AAAA'' ''image/png'' ex_logo) =
     Inr \<lparr>resp_text = None, resp_candidates = None\<rparr> \<and>
   candidateParts \<lparr>resp_text = None, resp_candidates = None\<rparr> = [] \<and>
   fst (extractImageLayer ex_silent ''AAAA'' ''image/png'' ex_logo ex_world) =
     Inl (Error ''Failed to extract image layer with the AI model.'') \<and>
   generateContent ex_down (extractRequest ''AAAA'' ''image/png'' ex_logo) = Inl RemoteError \<and>
   fst (extractImageLayer ex_down ''AAAA'' ''image/png'' ex_logo ex_world) =
     Inl (Error ''Failed to extract image layer with the AI model.'')"
proof -
  let ?ps = "[ex_textPart, ex_imagePart ''QUJD'', ex_imagePart ''WFla'']"
  note main = extract_first_inline_data_or_fail
  have a1: "generateContent ex_cutoutModel (extractRequest ''AAAA'' ''image/png'' ex_logo) =
     Inr (ex_partsResponse ?ps)"
    by (simp add: ex_cutoutModel_def ex_runtime_def)
  have cp: "candidateParts (ex_partsResponse ps) = ps" for ps
    by (simp add: candidateParts_def ex_partsResponse_def)
  have a2: "candidateParts (ex_partsResponse ?ps)
              = [ex_textPart] @ ex_imagePart ''QUJD'' # [ex_imagePart ''WFla'']"
    by (simp add: cp)
  have n: "part_inlineData ex_textPart = None" by (simp add: ex_textPart_def)
  have a3: "\<forall>p \<in> set [ex_textPart]. part_inlineData p = None" using n by simp
  have a4: "part_inlineData (ex_imagePart ''QUJD'') =
              Some \<lparr>blob_data = Some ''QUJD'', blob_mimeType = Some ''image/png''\<rparr>"
    by (simp add: ex_imagePart_def)
  have a5: "blob_data \<lparr>blob_data = Some ''QUJD'', blob_mimeType = Some ''image/png''\<rparr> = Some ''QUJD''"
           "''QUJD'' \<noteq> []"
    by simp_all
  have r1: "fst (extractImageLayer ex_cutoutModel ''AAAA'' ''image/png'' ex_logo ex_world) = Inr (Some ''QUJD'')"
    using main[where rt = ex_cutoutModel and base64Image = "''AAAA''" and mimeType = "''image/png''"
        and layer = ex_logo and w = ex_world and response = "ex_partsResponse ?ps"
        and pre = "[ex_textPart]" and part = "ex_imagePart ''QUJD''"
        and post = "[ex_imagePart ''WFla'']"
        and blob = "\<lparr>blob_data = Some ''QUJD'', blob_mimeType = Some ''image/png''\<rparr>"
        and d = "''QUJD''"]
      a1 a2 a3 a4 a5
    by blast
  have b1: "generateContent ex_textOnlyModel (extractRequest ''AAAA'' ''image/png'' ex_logo) =
     Inr (ex_partsResponse [ex_textPart, ex_textPart])"
    by (simp add: ex_textOnlyModel_def ex_runtime_def)
  have b2: "\<forall>p \<in> set (candidateParts (ex_partsResponse [ex_textPart, ex_textPart])).
              part_inlineData p = None"
    using n by (simp add: cp)
  have r2: "fst (extractImageLayer ex_textOnlyModel ''AAAA'' ''image/png'' ex_logo ex_world) =
       Inl (Error ''Failed to extract image layer with the AI model.'')"
    using main[where rt = ex_textOnlyModel and base64Image = "''AAAA''" and mimeType = "''image/png''"
        and layer = ex_logo and w = ex_world
        and response = "ex_partsResponse [ex_textPart, ex_textPart]"]
      b1 b2
    by blast
  have s1: "generateContent ex_silent (extractRequest ''AAAA'' ''image/png'' ex_logo) =
     Inr \<lparr>resp_text = None, resp_candidates = None\<rparr>"
    by (simp add: ex_silent_def ex_runtime_def)
  have s2: "candidateParts \<lparr>resp_text = None, resp_candidates = None\<rparr> = []"
    by (simp add: candidateParts_def)
  then have s3: "\<forall>p \<in> set (candidateParts \<lparr>resp_text = None, resp_candidates = None\<rparr>).
                   part_inlineData p = None"
    by simp
  have r3: "fst (extractImageLayer ex_silent ''AAAA'' ''image/png'' ex_logo ex_world) =
       Inl (Error ''Failed to extract image layer with the AI model.'')"
    using main[where rt = ex_silent and base64Image = "''AAAA''" and mimeType = "''image/png''"
        and layer = ex_logo and w = ex_world
        and response = "\<lparr>resp_text = None, resp_candidates = None\<rparr>"]
      s1 s3
    by blast
  have d1: "generateContent ex_down (extractRequest ''AAAA'' ''image/png'' ex_logo) = Inl RemoteError"
    by (simp add: ex_down_def ex_runtime_def)
  have r4: "fst (extractImageLayer ex_down ''AAAA'' ''image/png'' ex_logo ex_world) =
       Inl (Error ''Failed to extract image layer with the AI model.'')"
    using main[where rt = ex_down and base64Image = "''AAAA''" and mimeType = "''image/png''"
        and layer = ex_logo and w = ex_world and e = RemoteError] d1
    by blast
  from a1 a2 n r1 b1 r2 s1 s2 r3 d1 r4 show ?thesis by blast
qed

text \<open>
  Claim C7. \<open>extractImageLayer\<close> leaves the layer it is given as it was, whether
  the call succeeds or fails, and each call sends one request to the model. The request
  and the result do not depend on the cached payload of the layer: a call on a layer
  with any cache content \<open>cache\<close> sends the same request and returns the same result.
\<close>

theorem extract_never_touches_layer:
  "fst (snd (extractImageLayer rt base64Image mimeType layer w)) = layer \<and>
   sent (snd (snd (extractImageLayer rt base64Image mimeType layer w))) =
     sent w @ [extractRequest base64Image mimeType layer] \<and>
   extractRequest base64Image mimeType (layer\<lparr>layer_extractedImage := cache\<rparr>) =
     extractRequest base64Image mimeType layer \<and>
   fst (extractImageLayer rt base64Image mimeType (layer\<lparr>layer_extractedImage := cache\<rparr>) w) =
     fst (extractImageLayer rt base64Image mimeType layer w) \<and>
   sent (snd (snd (extractImageLayer rt base64Image mimeType
                     (layer\<lparr>layer_extractedImage := cache\<rparr>) w))) =
     sent w @ [extractRequest base64Image mimeType layer]"
proof -
  have s: "sent (snd (snd (extractImageLayer rt base64Image mimeType l w))) =
     sent w @ [extractRequest base64Image mimeType l]" for l
    by (simp add: extractImageLayer_def Let_def split: sum.splits)
  have l: "fst (snd (extractImageLayer rt base64Image mimeType layer w)) = layer"
    by (simp add: extractImageLayer_def Let_def split: sum.splits)
  have q: "extractRequest base64Image mimeType (layer\<lparr>layer_extractedImage := cache\<rparr>) =
     extractRequest base64Image mimeType layer"
    by (simp add: extractRequest_def)
  have r: "fst (extractImageLayer rt base64Image mimeType (layer\<lparr>layer_extractedImage := cache\<rparr>) w) =
     fst (extractImageLayer rt base64Image mimeType layer w)"
    by (simp add: extract_result q)
  from s[of layer] s[of "layer\<lparr>layer_extractedImage := cache\<rparr>"] l q r show ?thesis by simp
qed

theorem extract_never_touches_layer_witness:
  "fst (snd (extractImageLayer ex_down ''AAAA'' ''image/png'' ex_logo ex_world)) = ex_logo \<and>
   fst (snd (extractImageLayer ex_cutoutModel ''AAAA'' ''image/png'' ex_logo ex_world)) = ex_logo \<and>
   sent (snd (snd (extractImageLayer ex_cutoutModel ''AAAA'' ''image/png'' ex_logo ex_world))) =
     sent ex_world @ [extractRequest ''AAAA'' ''image/png'' ex_logo]"
  using extract_never_touches_layer[of ex_down "''AAAA''" "''image/png''" ex_logo ex_world]
        extract_never_touches_layer[of ex_cutoutModel "''AAAA''" "''image/png''" ex_logo ex_world]
  by simp

text \<open>
  Claim C9. Once the model has answered with a non-empty text that parses, the
  decomposition returns the parsed value exactly when it is an array whose elements all
  have truthy \<^verbatim>\<open>name\<close>, \<^verbatim>\<open>description\<close>, \<^verbatim>\<open>type\<close> and
  \<^verbatim>\<open>boundingBox\<close>, and fails otherwise. So an element with any non-empty string
  as category and an empty object as bounding box is returned as it is, and an element
  whose name or description is the empty string makes the whole call fail.
\<close>

theorem analyze_validation_is_truthiness:
  assumes "generateContent rt (analyzeRequest base64Image mimeType) = Inr response"
      and "resp_text response = Some jsonText"
      and "jsonText \<noteq> []"
      and "JSON_parse rt jsonText = Some parsed"
  shows "fst (analyzeImageForLayers rt base64Image mimeType w) =
           (case parsed of
              JArr xs \<Rightarrow>
                if (\<forall>x \<in> set xs.
                      hasTruthy x ''name'' \<and> hasTruthy x ''description'' \<and>
                      hasTruthy x ''type'' \<and> hasTruthy x ''boundingBox'')
                then Inr xs
                else Inl (Error ''Failed to communicate with the AI model.'')
            | _ \<Rightarrow> Inl (Error ''Failed to communicate with the AI model.'')) \<and>
         (n \<noteq> [] \<and> d \<noteq> [] \<and> t \<noteq> [] \<and>
          parsed = JArr [JObj [(''name'', JStr n), (''description'', JStr d), (''type'', JStr t),
                               (''boundingBox'', JObj [])]] \<longrightarrow>
            fst (analyzeImageForLayers rt base64Image mimeType w) =
              Inr [JObj [(''name'', JStr n), (''description'', JStr d), (''type'', JStr t),
                         (''boundingBox'', JObj [])]]) \<and>
         (parsed = JArr items \<and> item \<in> set items \<and>
          (getProp item ''name'' = Inr (Some (JStr [])) \<or>
           getProp item ''description'' = Inr (Some (JStr []))) \<longrightarrow>
            fst (analyzeImageForLayers rt base64Image mimeType w) =
              Inl (Error ''Failed to communicate with the AI model.''))"
proof -
  let ?r = "fst (analyzeImageForLayers rt base64Image mimeType w)"
  let ?fail = "Inl (Error ''Failed to communicate with the AI model.'') :: error + json list"
  let ?ok = "\<lambda>xs. \<forall>x \<in> set xs.
                      hasTruthy x ''name'' \<and> hasTruthy x ''description'' \<and>
                      hasTruthy x ''type'' \<and> hasTruthy x ''boundingBox''"
  have iff: "?r = Inr xs \<longleftrightarrow> parsed = JArr xs \<and> ?ok xs" for xs
  proof -
    have "?r = Inr xs \<longleftrightarrow> analyzeTry rt (Inr response) = Inr xs"
      by (cases "analyzeTry rt (Inr response)") (simp_all add: analyze_result assms(1))
    then show ?thesis
      using analyzeTry_Inr[OF assms(2,3,4), of xs] by (simp add: requiredFields_def)
  qed
  have err: "?r = ?fail" if "\<And>xs. ?r \<noteq> Inr xs"
    using that
    by (cases "analyzeTry rt (generateContent rt (analyzeRequest base64Image mimeType))")
       (auto simp: analyze_result)
  have a: "?r = (case parsed of
              JArr xs \<Rightarrow> if ?ok xs then Inr xs else ?fail
            | _ \<Rightarrow> ?fail)"
  proof (cases "\<exists>xs. parsed = JArr xs \<and> ?ok xs")
    case True
    then obtain xs where x: "parsed = JArr xs" "?ok xs" by blast
    then have "?r = Inr xs" using iff[of xs] by simp
    with x show ?thesis by simp
  next
    case False
    then have "\<And>xs. ?r \<noteq> Inr xs" using iff by blast
    then have "?r = ?fail" by (rule err)
    with False show ?thesis by (cases parsed) auto
  qed
  have c: "n \<noteq> [] \<and> d \<noteq> [] \<and> t \<noteq> [] \<and>
          parsed = JArr [JObj [(''name'', JStr n), (''description'', JStr d), (''type'', JStr t),
                               (''boundingBox'', JObj [])]] \<longrightarrow>
            ?r = Inr [JObj [(''name'', JStr n), (''description'', JStr d), (''type'', JStr t),
                         (''boundingBox'', JObj [])]]"
    by (simp add: iff hasTruthy_def)
  have d: "parsed = JArr items \<and> item \<in> set items \<and>
          (getProp item ''name'' = Inr (Some (JStr [])) \<or>
           getProp item ''description'' = Inr (Some (JStr []))) \<longrightarrow> ?r = ?fail"
  proof (intro impI)
    assume h: "parsed = JArr items \<and> item \<in> set items \<and>
          (getProp item ''name'' = Inr (Some (JStr [])) \<or>
           getProp item ''description'' = Inr (Some (JStr [])))"
    then have "\<not> (hasTruthy item ''name'' \<and> hasTruthy item ''description'')"
      by (auto simp: hasTruthy_def)
    with h have "\<And>ys. ?r \<noteq> Inr ys"
      unfolding iff by auto
    then show "?r = ?fail" by (rule err)
  qed
  from a c d show ?thesis by blast
qed

theorem analyze_validation_is_truthiness_witness:
  "generateContent ex_lenient (analyzeRequest ''AAAA'' ''image/png'')
     = Inr (ex_textResponse ''[{name: Sky, type: hologram, boundingBox: {}}]'') \<and>
   JSON_parse ex_lenient ''[{name: Sky, type: hologram, boundingBox: {}}]''
     = Some (JArr [ex_item ''Sky'' ''hologram'']) \<and>
   fst (analyzeImageForLayers ex_lenient ''AAAA'' ''image/png'' ex_world)
     = Inr [ex_item ''Sky'' ''hologram''] \<and>
   generateContent ex_unnamed (analyzeRequest ''AAAA'' ''image/png'')
     = Inr (ex_textResponse ''[{name: , type: shape, boundingBox: {}}]'') \<and>
   JSON_parse ex_unnamed ''[{name: , type: shape, boundingBox: {}}]''
     = Some (JArr [ex_item [] ''shape'']) \<and>
   fst (analyzeImageForLayers ex_unnamed ''AAAA'' ''image/png'' ex_world)
     = Inl (Error ''Failed to communicate with the AI model.'')"
proof -
  have a1: "generateContent ex_lenient (analyzeRequest ''AAAA'' ''image/png'')
     = Inr (ex_textResponse ''[{name: Sky, type: hologram, boundingBox: {}}]'')"
    by (simp add: ex_lenient_def ex_runtime_def)
  have a2: "resp_text (ex_textResponse ''[{name: Sky, type: hologram, boundingBox: {}}]'')
     = Some ''[{name: Sky, type: hologram, boundingBox: {}}]''"
    by (simp add: ex_textResponse_def)
  have a3: "''[{name: Sky, type: hologram, boundingBox: {}}]'' \<noteq> []" by simp
  have a4: "JSON_parse ex_lenient ''[{name: Sky, type: hologram, boundingBox: {}}]''
     = Some (JArr [ex_item ''Sky'' ''hologram''])"
    by (simp add: ex_lenient_def ex_runtime_def)
  have b1: "generateContent ex_unnamed (analyzeRequest ''AAAA'' ''image/png'')
     = Inr (ex_textResponse ''[{name: , type: shape, boundingBox: {}}]'')"
    by (simp add: ex_unnamed_def ex_runtime_def)
  have b2: "resp_text (ex_textResponse ''[{name: , type: shape, boundingBox: {}}]'')
     = Some ''[{name: , type: shape, boundingBox: {}}]''"
    by (simp add: ex_textResponse_def)
  have b3: "''[{name: , type: shape, boundingBox: {}}]'' \<noteq> []" by simp
  have b4: "JSON_parse ex_unnamed ''[{name: , type: shape, boundingBox: {}}]''
     = Some (JArr [ex_item [] ''shape''])"
    by (simp add: ex_unnamed_def ex_runtime_def)
  have r1: "fst (analyzeImageForLayers ex_lenient ''AAAA'' ''image/png'' ex_world)
     = Inr [ex_item ''Sky'' ''hologram'']"
    using analyze_validation_is_truthiness[OF a1 a2 a3 a4, of ex_world]
    by (simp add: ex_item_def hasTruthy_def)
  have r2: "fst (analyzeImageForLayers ex_unnamed ''AAAA'' ''image/png'' ex_world)
     = Inl (Error ''Failed to communicate with the AI model.'')"
    using analyze_validation_is_truthiness[OF b1 b2 b3 b4, of ex_world]
    by (simp add: ex_item_def hasTruthy_def)
  from a1 a4 r1 b1 b4 r2 show ?thesis by simp
qed

end
